theory Spec2Isabelle
  imports Complex_Main
begin

section \<open>Exceptions\<close>

text \<open>
  The Python exceptions that the modelled code can raise. A computation that may raise
  returns \<open>error + 'a\<close>, with \<open>Inl\<close> for the exception. \<open>AssertionError\<close> is what the
  \<^verbatim>\<open>assert\<close> of \<^verbatim>\<open>Quantity.ConvertTo\<close> raises (the unit mismatch of the
  specification); \<open>RuntimeError\<close> is the interpreter's "maximum recursion depth exceeded";
  \<open>TransportError\<close> stands for whatever the posting collaborator raises.
\<close>

datatype error =
    AssertionError
  | ZeroDivisionError
  | AttributeError
  | TypeError
  | ValueError
  | RuntimeError
  | TransportError

definition bind :: "error + 'a \<Rightarrow> ('a \<Rightarrow> error + 'b) \<Rightarrow> error + 'b" where
  "bind r f = (case r of Inl e \<Rightarrow> Inl e | Inr x \<Rightarrow> f x)"


section \<open>units.py: units\<close>

text \<open>
  A \<^verbatim>\<open>Unit\<close> is a Python object; units are compared by identity (\<^verbatim>\<open>is\<close>), they
  are the keys of the \<^verbatim>\<open>products\<close> and \<^verbatim>\<open>quotients\<close> dictionaries, and the
  constructor mutates the dictionaries of other units. So a unit is a reference \<open>uref\<close>
  into a store \<open>units\<close> that maps every reference to the object's fields.
\<close>

type_synonym uref = nat

record Unit =
  symbol :: string
  factor :: real
  base :: uref
  products :: "uref \<rightharpoonup> uref"
  quotients :: "uref \<rightharpoonup> uref"

type_synonym units = "uref \<Rightarrow> Unit"

text \<open>
  One turn of the loop of \<^verbatim>\<open>Unit.__init__\<close> over \<^verbatim>\<open>factorizations\<close>:
  \<^verbatim>\<open>self.quotients[left] = right; self.quotients[right] = left;
  left.products[right] = self; right.products[left] = self\<close>.
\<close>

definition declare_factorization :: "uref \<Rightarrow> uref \<times> uref \<Rightarrow> units \<Rightarrow> units" where
  "declare_factorization self lr U =
     (let left = fst lr; right = snd lr;
          U1 = U(self := (U self)\<lparr>quotients := (quotients (U self))(left \<mapsto> right)\<rparr>);
          U2 = U1(self := (U1 self)\<lparr>quotients := (quotients (U1 self))(right \<mapsto> left)\<rparr>);
          U3 = U2(left := (U2 left)\<lparr>products := (products (U2 left))(right \<mapsto> self)\<rparr>)
      in U3(right := (U3 right)\<lparr>products := (products (U3 right))(left \<mapsto> self)\<rparr>))"

text \<open>
  \<^verbatim>\<open>Unit.__init__(self, symbol, factor=1, base=None, factorizations=())\<close>, with \<open>self\<close>
  the reference of the new object. \<^verbatim>\<open>base or self\<close> is \<open>base\<close> unless it is
  \<^verbatim>\<open>None\<close> (a unit object is always true). The registry \<^verbatim>\<open>units_by_symbol\<close> is
  read by \<^verbatim>\<open>ParseEntries\<close> only and is left out.
\<close>

definition Unit_init ::
  "units \<Rightarrow> uref \<Rightarrow> string \<Rightarrow> real \<Rightarrow> uref option \<Rightarrow> (uref \<times> uref) list \<Rightarrow> error + units"
where
  "Unit_init U self symbol_arg fac base_arg factorizations =
     (let b = (case base_arg of None \<Rightarrow> self | Some b' \<Rightarrow> b') in
      if b = self \<and> fac \<noteq> 1 then Inl AssertionError
      else Inr (fold (declare_factorization self) factorizations
                  (U(self := \<lparr>symbol = symbol_arg, factor = fac, base = b,
                               products = Map.empty, quotients = Map.empty\<rparr>))))"

text \<open>\<^verbatim>\<open>Unit.IsConvertibleTo(self, unit)\<close>: \<^verbatim>\<open>unit.base is self.base\<close>.\<close>

definition Unit_IsConvertibleTo :: "units \<Rightarrow> uref \<Rightarrow> uref \<Rightarrow> bool" where
  "Unit_IsConvertibleTo U self u = (base (U u) = base (U self))"


section \<open>units.py: quantities\<close>

text \<open>
  A \<^verbatim>\<open>Quantity\<close> is a value and a unit. The value is a Python float; it is modelled
  as a real number, so rounding, overflow and NaN are outside the model, but a division
  by zero raises as it does in Python.
\<close>

record Quantity =
  "value" :: real
  unit :: uref

text \<open>
  \<^verbatim>\<open>Quantity.ConvertTo(self, unit)\<close>: the assertion, then
  \<^verbatim>\<open>Quantity(self.value * self.unit.factor / unit.factor, unit)\<close>.
\<close>

definition ConvertTo :: "units \<Rightarrow> Quantity \<Rightarrow> uref \<Rightarrow> error + Quantity" where
  "ConvertTo U self u =
     (if \<not> Unit_IsConvertibleTo U (unit self) u then Inl AssertionError
      else if factor (U u) = 0 then Inl ZeroDivisionError
      else Inr \<lparr>value = value self * factor (U (unit self)) / factor (U u), unit = u\<rparr>)"

text \<open>\<^verbatim>\<open>Quantity.IsConvertibleTo(self, unit)\<close>.\<close>

definition Quantity_IsConvertibleTo :: "units \<Rightarrow> Quantity \<Rightarrow> uref \<Rightarrow> bool" where
  "Quantity_IsConvertibleTo U self u = Unit_IsConvertibleTo U (unit self) u"

text \<open>\<^verbatim>\<open>Quantity.__add__\<close> and \<^verbatim>\<open>Quantity.__sub__\<close>.\<close>

definition Quantity_add :: "units \<Rightarrow> Quantity \<Rightarrow> Quantity \<Rightarrow> error + Quantity" where
  "Quantity_add U self other =
     bind (ConvertTo U other (unit self))
       (\<lambda>other'. Inr \<lparr>value = value self + value other', unit = unit self\<rparr>)"

definition Quantity_sub :: "units \<Rightarrow> Quantity \<Rightarrow> Quantity \<Rightarrow> error + Quantity" where
  "Quantity_sub U self other =
     bind (ConvertTo U other (unit self))
       (\<lambda>other'. Inr \<lparr>value = value self - value other', unit = unit self\<rparr>)"

text \<open>
  The right operand of \<^verbatim>\<open>*\<close> and \<^verbatim>\<open>/\<close>: the operators dispatch on its type with
  \<^verbatim>\<open>isinstance\<close>.
\<close>

datatype operand = Scalar real | OfUnit uref | OfQuantity Quantity

text \<open>
  \<^verbatim>\<open>Quantity.__mul__\<close>. Where no branch returns, the Python function ends and its
  result is \<^verbatim>\<open>None\<close>: that is the \<open>None\<close> here. \<^verbatim>\<open>self.unit * other\<close> is
  \<^verbatim>\<open>self.unit.products[other]\<close>, read only under the guard \<^verbatim>\<open>other in self.unit.products\<close>.
\<close>

definition Quantity_mul :: "units \<Rightarrow> Quantity \<Rightarrow> operand \<Rightarrow> Quantity option" where
  "Quantity_mul U self other =
     (case other of
        Scalar s \<Rightarrow> Some \<lparr>value = value self * s, unit = unit self\<rparr>
      | OfUnit u \<Rightarrow>
          (case products (U (unit self)) u of
             Some p \<Rightarrow> Some \<lparr>value = value self, unit = p\<rparr>
           | None \<Rightarrow> None)
      | OfQuantity q \<Rightarrow>
          (case products (U (unit self)) (unit q) of
             Some p \<Rightarrow> Some \<lparr>value = value self * value q, unit = p\<rparr>
           | None \<Rightarrow> None))"

text \<open>
  \<^verbatim>\<open>Quantity.__div__\<close> returns a quantity, or a bare number when both operands have
  the same unit. Its last line calls \<^verbatim>\<open>/\<close> again on the quantity converted to the
  base unit; nothing bounds that recursion but the interpreter's recursion limit, which is
  the fuel here: at depth zero the call raises \<open>RuntimeError\<close>.
\<close>

datatype quotient = QuantityResult Quantity | NumberResult real

fun Quantity_div :: "units \<Rightarrow> nat \<Rightarrow> Quantity \<Rightarrow> operand \<Rightarrow> error + quotient" where
  "Quantity_div U 0 self other = Inl RuntimeError"
| "Quantity_div U (Suc depth) self other =
     (let retry = bind (ConvertTo U self (base (U (unit self))))
                    (\<lambda>self'. Quantity_div U depth self' other)
      in case other of
        OfUnit u \<Rightarrow>
          (case quotients (U (unit self)) u of
             Some r \<Rightarrow> Inr (QuantityResult \<lparr>value = value self, unit = r\<rparr>)
           | None \<Rightarrow> retry)
      | OfQuantity q \<Rightarrow>
          (case quotients (U (unit self)) (unit q) of
             Some r \<Rightarrow>
               if value q = 0 then Inl ZeroDivisionError
               else Inr (QuantityResult \<lparr>value = value self / value q, unit = r\<rparr>)
           | None \<Rightarrow>
               if unit q = unit self then
                 (if value q = 0 then Inl ZeroDivisionError
                  else Inr (NumberResult (value self / value q)))
               else retry)
      | Scalar s \<Rightarrow> retry)"


section \<open>units.py: the units of the module\<close>

text \<open>
  The module creates four units, in this order; their references are the first four.
  \<^verbatim>\<open>MINUTE\<close>, \<^verbatim>\<open>HOUR\<close>, \<^verbatim>\<open>KILOWATT\<close> and \<^verbatim>\<open>MEGAWATT\<close> are products of a
  number and a unit, which \<^verbatim>\<open>Unit.__rmul__\<close> makes quantities, not units.
\<close>

definition SECOND :: uref where "SECOND = 0"
definition WATT :: uref where "WATT = 1"
definition JOULE :: uref where "JOULE = 2"
definition KILOWATT_HOUR :: uref where "KILOWATT_HOUR = 3"

definition Unit_rmul :: "uref \<Rightarrow> real \<Rightarrow> Quantity" where
  "Unit_rmul self other = \<lparr>value = other, unit = self\<rparr>"

definition units_module :: "units \<Rightarrow> error + units" where
  "units_module U0 =
     bind (Unit_init U0 SECOND ''s'' 1 None []) (\<lambda>U1.
     bind (Unit_init U1 WATT ''W'' 1 None []) (\<lambda>U2.
     bind (Unit_init U2 JOULE ''J'' 1 None [(WATT, SECOND)]) (\<lambda>U3.
     Unit_init U3 KILOWATT_HOUR ''kW h'' (3600 * 1000) (Some JOULE) [])))"

definition MINUTE :: Quantity where "MINUTE = Unit_rmul SECOND 60"
definition HOUR :: Quantity where "HOUR = \<lparr>value = value MINUTE * 60, unit = unit MINUTE\<rparr>"
definition KILOWATT :: Quantity where "KILOWATT = Unit_rmul WATT 1000"
definition MEGAWATT :: Quantity where
  "MEGAWATT = \<lparr>value = value KILOWATT * 1000, unit = unit KILOWATT\<rparr>"

text \<open>
  What the operations below read of the module's units. A store satisfies it when the
  module has been loaded, whatever further units the program has created since
  (as long as they redeclare no product of watt and second).
\<close>

definition loaded :: "units \<Rightarrow> bool" where
  "loaded U =
     (base (U SECOND) = SECOND \<and> factor (U SECOND) = 1 \<and>
      base (U WATT) = WATT \<and> factor (U WATT) = 1 \<and>
      products (U WATT) SECOND = Some JOULE \<and>
      products (U SECOND) WATT = Some JOULE \<and>
      base (U JOULE) = JOULE \<and> factor (U JOULE) = 1 \<and>
      quotients (U JOULE) WATT = Some SECOND \<and>
      quotients (U JOULE) SECOND = Some WATT \<and>
      base (U KILOWATT_HOUR) = JOULE \<and> factor (U KILOWATT_HOUR) = 3600000)"

text \<open>The store after loading the module into a store with nothing of interest in it.\<close>

definition blank :: units where
  "blank = (\<lambda>_. \<lparr>symbol = [], factor = 1, base = 0,
                  products = Map.empty, quotients = Map.empty\<rparr>)"

definition std_units :: units where
  "std_units = (case units_module blank of Inr U \<Rightarrow> U | Inl _ \<Rightarrow> blank)"


text \<open>
  A store with a fifth unit \<^verbatim>\<open>Unit('z', 0, JOULE)\<close>: the constructor accepts a factor
  of zero for a unit that is not its own base.
\<close>

definition zero_factor_units :: units where
  "zero_factor_units =
     std_units(4 := \<lparr>symbol = ''z'', factor = 0, base = JOULE,
                      products = Map.empty, quotients = Map.empty\<rparr>)"

text \<open>
  A store with a fifth unit \<^verbatim>\<open>Unit('kW', 1000, WATT)\<close>: a unit of power other
  than the watt itself.
\<close>

definition kilowatt_units :: units where
  "kilowatt_units =
     std_units(4 := \<lparr>symbol = ''kW'', factor = 1000, base = WATT,
                      products = Map.empty, quotients = Map.empty\<rparr>)"


section \<open>rfc3339.py\<close>

text \<open>
  The first six fields of a \<^verbatim>\<open>struct_time\<close>: year, month, day, hour, minute, second.
\<close>

type_synonym time_tuple = "int \<times> int \<times> int \<times> int \<times> int \<times> int"

text \<open>\<^verbatim>\<open>int(x)\<close> of a float truncates towards zero.\<close>

definition py_int :: "real \<Rightarrow> int" where
  "py_int x = (if x < 0 then \<lceil>x\<rceil> else \<lfloor>x\<rfloor>)"

text \<open>The decimal digits of a natural number, and \<^verbatim>\<open>'%0wd' % n\<close>.\<close>

fun digits :: "nat \<Rightarrow> string" where
  "digits n =
     (if n < 10 then [''0123456789'' ! n]
      else digits (n div 10) @ [''0123456789'' ! (n mod 10)])"

declare digits.simps [simp del]

definition zero_pad :: "nat \<Rightarrow> string \<Rightarrow> string" where
  "zero_pad w s = replicate (w - length s) CHR ''0'' @ s"

definition fmt_d :: "nat \<Rightarrow> int \<Rightarrow> string" where
  "fmt_d w n =
     (if n < 0 then CHR ''-'' # zero_pad (w - 1) (digits (nat (- n)))
      else zero_pad w (digits (nat n)))"

text \<open>
  \<^verbatim>\<open>ToTimestamp(unix_time)\<close>. \<^verbatim>\<open>time.gmtime\<close> belongs to the Python library and is
  a parameter; it may raise for an instant outside the platform's range.
\<close>

definition ToTimestamp :: "(real \<Rightarrow> error + time_tuple) \<Rightarrow> real \<Rightarrow> error + string" where
  "ToTimestamp gmtime unix_time =
     bind (gmtime unix_time) (\<lambda>(year, month, day, hour, minute, second).
       let milliseconds = py_int (unix_time * 1000) - py_int unix_time * 1000
       in Inr (fmt_d 4 year @ ''-'' @ fmt_d 2 month @ ''-'' @ fmt_d 2 day @ ''T'' @
               fmt_d 2 hour @ '':'' @ fmt_d 2 minute @ '':'' @ fmt_d 2 second @ ''.'' @
               fmt_d 3 milliseconds @ ''Z''))"

text \<open>
  The regular expression of \<^verbatim>\<open>FromTimestamp\<close>,
  \<^verbatim>\<open>(\d\d\d\d)-(\d\d)-(\d\d)T(\d\d):(\d\d)(?::(\d\d\.?\d*))?(Z|[-+]\d+:?(\d\d)?)\<close>,
  matched at the start of the string as \<^verbatim>\<open>re.match\<close> does: whatever follows the
  match is ignored. The matcher below follows the pattern from left to right, each
  repetition as long as possible. That is also what the backtracking of \<^verbatim>\<open>re\<close>
  finds: a time zone starts with \<^verbatim>\<open>Z\<close>, \<^verbatim>\<open>+\<close> or \<^verbatim>\<open>-\<close>, so giving back
  a digit, the point or the whole seconds group would leave the time zone at a digit,
  a point or a colon, where it cannot match; and nothing follows the time zone.
\<close>

definition is_digit :: "char \<Rightarrow> bool" where
  "is_digit c = (c \<in> set ''0123456789'')"

definition take_digits :: "nat \<Rightarrow> string \<Rightarrow> (string \<times> string) option" where
  "take_digits n s =
     (if n \<le> length s \<and> list_all is_digit (take n s) then Some (take n s, drop n s)
      else None)"

definition take_char :: "char \<Rightarrow> string \<Rightarrow> string option" where
  "take_char c s = (case s of [] \<Rightarrow> None | x # r \<Rightarrow> if x = c then Some r else None)"

text \<open>
  \<^verbatim>\<open>(Z|[-+]\d+:?(\d\d)?)\<close>: the text of the group and of the inner group
  (\<^verbatim>\<open>zone\<close> and \<^verbatim>\<open>zone_minutes\<close>).
\<close>

definition match_zone :: "string \<Rightarrow> (string \<times> string option) option" where
  "match_zone s =
     (case s of
        [] \<Rightarrow> None
      | c # r \<Rightarrow>
          if c = CHR ''Z'' then Some ([c], None)
          else if c = CHR ''-'' \<or> c = CHR ''+'' then
            (let ds = takeWhile is_digit r; r1 = dropWhile is_digit r
             in if ds = [] then None
                else
                  (let colon = (case take_char CHR '':'' r1 of None \<Rightarrow> [] | Some _ \<Rightarrow> '':'');
                       r2 = (case take_char CHR '':'' r1 of None \<Rightarrow> r1 | Some r' \<Rightarrow> r')
                   in case take_digits 2 r2 of
                        None \<Rightarrow> Some (c # ds @ colon, None)
                      | Some (mm, _) \<Rightarrow> Some (c # ds @ colon @ mm, Some mm)))
          else None)"

text \<open>\<^verbatim>\<open>(?::(\d\d\.?\d*))?\<close>: the text of the inner group and the rest, if it matches.\<close>

definition match_second :: "string \<Rightarrow> (string \<times> string) option" where
  "match_second s =
     Option.bind (take_char CHR '':'' s) (\<lambda>s1.
     Option.bind (take_digits 2 s1) (\<lambda>(dd, s2).
       (case take_char CHR ''.'' s2 of
          None \<Rightarrow> Some (dd, s2)
        | Some s3 \<Rightarrow> Some (dd @ ''.'' @ takeWhile is_digit s3, dropWhile is_digit s3))))"

record groups =
  g_year :: string
  g_month :: string
  g_day :: string
  g_hour :: string
  g_minute :: string
  g_second :: "string option"
  g_zone :: string
  g_zone_minutes :: "string option"

definition re_match :: "string \<Rightarrow> groups option" where
  "re_match s =
     Option.bind (take_digits 4 s) (\<lambda>(year, s).
     Option.bind (take_char CHR ''-'' s) (\<lambda>s.
     Option.bind (take_digits 2 s) (\<lambda>(month, s).
     Option.bind (take_char CHR ''-'' s) (\<lambda>s.
     Option.bind (take_digits 2 s) (\<lambda>(day, s).
     Option.bind (take_char CHR ''T'' s) (\<lambda>s.
     Option.bind (take_digits 2 s) (\<lambda>(hour, s).
     Option.bind (take_char CHR '':'' s) (\<lambda>s.
     Option.bind (take_digits 2 s) (\<lambda>(minute, s).
       (let second = map_option fst (match_second s);
            s' = (case match_second s of None \<Rightarrow> s | Some (_, r) \<Rightarrow> r)
        in Option.bind (match_zone s') (\<lambda>(zone, zone_minutes).
             Some \<lparr>g_year = year, g_month = month, g_day = day, g_hour = hour,
                   g_minute = minute, g_second = second, g_zone = zone,
                   g_zone_minutes = zone_minutes\<rparr>)))))))))))"

text \<open>
  \<^verbatim>\<open>int(s)\<close> on a string of decimal digits. Every string that \<^verbatim>\<open>FromTimestamp\<close>
  passes to \<^verbatim>\<open>int\<close> is a non-empty string of digits, by the pattern.
\<close>

definition digit_value :: "char \<Rightarrow> int" where
  "digit_value c = int (of_char c) - 48"

definition int_of_digits :: "string \<Rightarrow> int" where
  "int_of_digits s = foldl (\<lambda>n c. 10 * n + digit_value c) 0 s"

text \<open>
  \<^verbatim>\<open>''.join(timestamp.split())\<close> removes the whitespace of a byte string: space, tab,
  line feed, vertical tab, form feed and carriage return.
\<close>

definition is_space :: "char \<Rightarrow> bool" where
  "is_space c = (of_char c \<in> {9, 10, 11, 12, 13, 32 :: nat})"

text \<open>
  The group \<^verbatim>\<open>second\<close> holds at most one point, so \<^verbatim>\<open>split('.')[0]\<close> is what
  precedes the point and \<^verbatim>\<open>split('.')[1]\<close> is what follows it.
\<close>

definition int_second :: "string option \<Rightarrow> string" where
  "int_second second =
     takeWhile (\<lambda>c. c \<noteq> CHR ''.'') (case second of None \<Rightarrow> ''0'' | Some x \<Rightarrow> x)"

definition milliseconds :: "string option \<Rightarrow> int" where
  "milliseconds second =
     (case second of
        None \<Rightarrow> 0
      | Some x \<Rightarrow>
          if CHR ''.'' \<in> set x
          then int_of_digits (take 3 (tl (dropWhile (\<lambda>c. c \<noteq> CHR ''.'') x) @ ''000''))
          else 0)"

definition zone_offset :: "string \<Rightarrow> string option \<Rightarrow> int" where
  "zone_offset zone zone_minutes =
     (case zone of
        [] \<Rightarrow> 0
      | c # r \<Rightarrow>
          if c = CHR ''Z'' then 0
          else
            (let zone_hours = takeWhile (\<lambda>c. c \<noteq> CHR '':'') r;
                 off = int_of_digits zone_hours * 3600 +
                       (case zone_minutes of None \<Rightarrow> 0 | Some mm \<Rightarrow> int_of_digits mm) * 60
             in if c = CHR ''-'' then - off else off))"

text \<open>
  \<^verbatim>\<open>FromTimestamp(timestamp)\<close>. \<^verbatim>\<open>calendar.timegm\<close> belongs to the Python library
  and is a parameter. The result is a float, \<^verbatim>\<open>(integer_time * 1000 + milliseconds) * 0.001\<close>;
  the model computes it in the reals.
\<close>

definition FromTimestamp :: "(time_tuple \<Rightarrow> error + int) \<Rightarrow> string \<Rightarrow> error + real" where
  "FromTimestamp timegm timestamp =
     (case re_match (filter (\<lambda>c. \<not> is_space c) timestamp) of
        None \<Rightarrow> Inl ValueError
      | Some g \<Rightarrow>
          bind (timegm (int_of_digits (g_year g), int_of_digits (g_month g),
                        int_of_digits (g_day g), int_of_digits (g_hour g),
                        int_of_digits (g_minute g), int_of_digits (int_second (g_second g))))
            (\<lambda>t. let integer_time = t - zone_offset (g_zone g) (g_zone_minutes g)
                 in Inr (real_of_int (integer_time * 1000 + milliseconds (g_second g)) * 0.001)))"

subsection \<open>The library functions\<close>

text \<open>
  \<^verbatim>\<open>time.gmtime\<close> on an instant that the platform accepts: the seconds truncated to an
  integer, then the proleptic Gregorian calendar date of the day.
\<close>

definition civil_time :: "int \<Rightarrow> time_tuple" where
  "civil_time secs =
     (let days = secs div 86400; r = secs mod 86400;
          z = days + 719468; era = z div 146097; doe = z mod 146097;
          yoe = (doe - doe div 1460 + doe div 36524 - doe div 146096) div 365;
          doy = doe - (365 * yoe + yoe div 4 - yoe div 100);
          mp = (5 * doy + 2) div 153;
          d = doy - (153 * mp + 2) div 5 + 1;
          m = (if mp < 10 then mp + 3 else mp - 9);
          y = yoe + era * 400 + (if m \<le> 2 then 1 else 0)
      in (y, m, d, r div 3600, r mod 3600 div 60, r mod 60))"

definition posix_gmtime :: "real \<Rightarrow> error + time_tuple" where
  "posix_gmtime t = Inr (civil_time (py_int t))"

text \<open>
  \<^verbatim>\<open>calendar.timegm\<close> as of Python 2.6:
  \<^verbatim>\<open>days = datetime.date(year, month, 1).toordinal() - _EPOCH_ORD + day - 1\<close>, where
  \<^verbatim>\<open>datetime.date\<close> raises \<open>ValueError\<close> for a year outside 1..9999 or a month
  outside 1..12.
\<close>

definition is_leap :: "int \<Rightarrow> bool" where
  "is_leap y = (y mod 4 = 0 \<and> (y mod 100 \<noteq> 0 \<or> y mod 400 = 0))"

definition toordinal :: "int \<Rightarrow> int \<Rightarrow> int \<Rightarrow> int" where
  "toordinal y m d =
     (y - 1) * 365 + (y - 1) div 4 - (y - 1) div 100 + (y - 1) div 400 +
     [0, 31, 59, 90, 120, 151, 181, 212, 243, 273, 304, 334] ! nat (m - 1) +
     (if 2 < m \<and> is_leap y then 1 else 0) + d"

definition calendar_timegm :: "time_tuple \<Rightarrow> error + int" where
  "calendar_timegm tt =
     (case tt of (year, month, day, hour, minute, second) \<Rightarrow>
        if year < 1 \<or> 9999 < year \<or> month < 1 \<or> 12 < month then Inl ValueError
        else
          (let days = toordinal year month 1 - 719163 + day - 1;
               hours = days * 24 + hour;
               minutes = hours * 60 + minute
           in Inr (minutes * 60 + second)))"


section \<open>google_meter.py: events\<close>

text \<open>
  The subject of an event is an \<^verbatim>\<open>Entity\<close> object or a path;
  \<^verbatim>\<open>GetEntityPath\<close> reads the path of the object. Of an entity only the path is
  modelled.
\<close>

datatype entity_or_path = Entity (path: string) | Path string

definition GetEntityPath :: "entity_or_path \<Rightarrow> string" where
  "GetEntityPath entity_or_path =
     (case entity_or_path of Entity p \<Rightarrow> p | Path p \<Rightarrow> p)"

text \<open>
  The two measurement events, with the attributes their constructors set; \<open>event_id\<close>
  is the attribute \<^verbatim>\<open>id\<close>.
\<close>

datatype event =
    InstMeasurement
      (subject_path: string) (occur_time: real) (quantity: Quantity)
      (occur_time_uncertainty: real) (quantity_uncertainty: Quantity)
      (initial: bool) (event_id: string)
  | DurMeasurement
      (subject_path: string) (start_time: real) (end_time: real) (quantity: Quantity)
      (start_time_uncertainty: real) (end_time_uncertainty: real)
      (quantity_uncertainty: Quantity) (event_id: string)

text \<open>
  \<^verbatim>\<open>rfc3339.ToTimestamp(t).replace(':', '_')\<close>. The time may be \<^verbatim>\<open>None\<close>:
  \<^verbatim>\<open>time.gmtime(None)\<close> is the current time, and then \<^verbatim>\<open>None * 1000\<close> raises
  \<open>TypeError\<close>.
\<close>

definition timestamp_id :: "(real \<Rightarrow> error + time_tuple) \<Rightarrow> real option \<Rightarrow> error + string" where
  "timestamp_id gmtime t =
     (case t of
        None \<Rightarrow> Inl TypeError
      | Some x \<Rightarrow>
          bind (ToTimestamp gmtime x)
            (\<lambda>ts. Inr (map (\<lambda>c. if c = CHR '':'' then CHR ''_'' else c) ts)))"

text \<open>\<^verbatim>\<open>InstMeasurement.__init__\<close> and \<^verbatim>\<open>DurMeasurement.__init__\<close>.\<close>

definition InstMeasurement_init ::
  "(real \<Rightarrow> error + time_tuple) \<Rightarrow> entity_or_path \<Rightarrow> real option \<Rightarrow> Quantity \<Rightarrow> real \<Rightarrow>
     Quantity \<Rightarrow> bool \<Rightarrow> error + event"
where
  "InstMeasurement_init gmtime subject occur_time_arg quantity_arg otu qu initial_arg =
     bind (timestamp_id gmtime occur_time_arg) (\<lambda>i.
       case occur_time_arg of
         None \<Rightarrow> Inl TypeError
       | Some t \<Rightarrow>
           Inr (InstMeasurement (GetEntityPath subject) t quantity_arg otu qu initial_arg i))"

definition DurMeasurement_init ::
  "(real \<Rightarrow> error + time_tuple) \<Rightarrow> entity_or_path \<Rightarrow> real option \<Rightarrow> real \<Rightarrow> Quantity \<Rightarrow>
     real \<Rightarrow> real \<Rightarrow> Quantity \<Rightarrow> error + event"
where
  "DurMeasurement_init gmtime subject start_time_arg end_time_arg quantity_arg stu etu qu =
     bind (timestamp_id gmtime start_time_arg) (\<lambda>i.
       case start_time_arg of
         None \<Rightarrow> Inl TypeError
       | Some t \<Rightarrow>
           Inr (DurMeasurement (GetEntityPath subject) t end_time_arg quantity_arg stu etu qu i))"


section \<open>google_meter.py: the meter\<close>

text \<open>
  What a call on a meter reads from outside the meter: the store of units, the clock
  (\<^verbatim>\<open>time.time()\<close>, read at most once in a call), the library's \<^verbatim>\<open>time.gmtime\<close>,
  and the method \<^verbatim>\<open>PostEvent\<close> of the service, which changes the service (of any
  type \<open>'s\<close>) and may raise.
\<close>

record 's env =
  units :: units
  time_time :: real
  gmtime :: "real \<Rightarrow> error + time_tuple"
  PostEvent :: "'s \<Rightarrow> event \<Rightarrow> 's \<times> error option"

record 's Meter =
  service :: 's
  variable :: entity_or_path
  uncertainty :: Quantity
  time_uncertainty :: real
  durational :: bool
  register :: Quantity
  last_read_time :: "real option"

text \<open>\<^verbatim>\<open>Meter.__init__\<close>; the register starts at \<^verbatim>\<open>0.0 * units.KILOWATT_HOUR\<close>.\<close>

definition Meter_init ::
  "'s \<Rightarrow> entity_or_path \<Rightarrow> Quantity \<Rightarrow> real \<Rightarrow> bool \<Rightarrow> real option \<Rightarrow> 's Meter" where
  "Meter_init service_arg variable_arg uncertainty_arg time_uncertainty_arg durational_arg
       last_read_time_arg =
     \<lparr>service = service_arg, variable = variable_arg, uncertainty = uncertainty_arg,
      time_uncertainty = time_uncertainty_arg, durational = durational_arg,
      register = Unit_rmul KILOWATT_HOUR 0, last_read_time = last_read_time_arg\<rparr>"

text \<open>\<^verbatim>\<open>Meter.Reset\<close>.\<close>

definition Reset :: "'s Meter \<Rightarrow> 's Meter" where
  "Reset self = self\<lparr>last_read_time := None\<rparr>"

text \<open>
  The outcome of a call that posts: the meter as the call leaves it, the events that
  \<^verbatim>\<open>PostEvent\<close> has accepted, in order, and the exception that ended the call, if any.
\<close>

record 's outcome =
  meter :: "'s Meter"
  posted :: "event list"
  raised :: "error option"

definition raise :: "'s Meter \<Rightarrow> error \<Rightarrow> 's outcome" where
  "raise self e = \<lparr>meter = self, posted = [], raised = Some e\<rparr>"

definition returned :: "'s Meter \<Rightarrow> 's outcome" where
  "returned self = \<lparr>meter = self, posted = [], raised = None\<rparr>"

text \<open>Construct the event, then \<^verbatim>\<open>self.service.PostEvent(event)\<close>.\<close>

definition post :: "'s env \<Rightarrow> 's Meter \<Rightarrow> error + event \<Rightarrow> 's outcome" where
  "post env self ev =
     (case ev of
        Inl e \<Rightarrow> raise self e
      | Inr e \<Rightarrow>
          (case PostEvent env (service self) e of
             (s', None) \<Rightarrow> \<lparr>meter = self\<lparr>service := s'\<rparr>, posted = [e], raised = None\<rparr>
           | (s', Some err) \<Rightarrow> raise (self\<lparr>service := s'\<rparr>) err))"

text \<open>One statement after another: the second runs if the first did not raise.\<close>

definition and_then :: "'s outcome \<Rightarrow> ('s Meter \<Rightarrow> 's outcome) \<Rightarrow> 's outcome" where
  "and_then r f =
     (case raised r of
        Some _ \<Rightarrow> r
      | None \<Rightarrow> (let r' = f (meter r) in r'\<lparr>posted := posted r @ posted r'\<rparr>))"

text \<open>\<^verbatim>\<open>Meter.PostDur\<close> and \<^verbatim>\<open>Meter.PostInst\<close>.\<close>

definition PostDur ::
  "'s env \<Rightarrow> 's Meter \<Rightarrow> real option \<Rightarrow> real \<Rightarrow> Quantity \<Rightarrow> Quantity \<Rightarrow> 's outcome" where
  "PostDur env self start_time_arg end_time_arg quantity_arg uncertainty_arg =
     post env self
       (DurMeasurement_init (gmtime env) (variable self) start_time_arg end_time_arg
          quantity_arg (time_uncertainty self) (time_uncertainty self) uncertainty_arg)"

definition PostInst ::
  "'s env \<Rightarrow> 's Meter \<Rightarrow> real option \<Rightarrow> Quantity \<Rightarrow> Quantity \<Rightarrow> bool \<Rightarrow> 's outcome" where
  "PostInst env self occur_time_arg quantity_arg uncertainty_arg initial_arg =
     post env self
       (InstMeasurement_init (gmtime env) (variable self) occur_time_arg quantity_arg
          (time_uncertainty self) uncertainty_arg initial_arg)"

text \<open>
  The last two statements of both reading methods:
  \<^verbatim>\<open>self.register = new_register; self.last_read_time = ...\<close>, reached if nothing
  before them raised.
\<close>

definition advance :: "'s outcome \<Rightarrow> Quantity \<Rightarrow> real \<Rightarrow> 's outcome" where
  "advance r new_register t =
     (case raised r of
        Some _ \<Rightarrow> r
      | None \<Rightarrow> r\<lparr>meter := (meter r)\<lparr>register := new_register, last_read_time := Some t\<rparr>\<rparr>)"

text \<open>
  The second part of \<^verbatim>\<open>PostRegisterReading\<close>, "generate durational or
  instantaneous events". \<^verbatim>\<open>uncertainty * 2\<close> is the scalar branch of
  \<^verbatim>\<open>Quantity.__mul__\<close>.
\<close>

definition register_events ::
  "'s env \<Rightarrow> 's Meter \<Rightarrow> Quantity \<Rightarrow> Quantity \<Rightarrow> real \<Rightarrow> 's outcome" where
  "register_events env self new_register uncertainty_arg read_time =
     (if durational self then
        (case last_read_time self of
           None \<Rightarrow> returned self
         | Some l \<Rightarrow>
             (case Quantity_sub (units env) new_register (register self) of
                Inl e \<Rightarrow> raise self e
              | Inr delta \<Rightarrow>
                  PostDur env self (Some l) read_time delta
                    \<lparr>value = value uncertainty_arg * 2, unit = unit uncertainty_arg\<rparr>))
      else
        PostInst env self (Some read_time) new_register uncertainty_arg
          (last_read_time self = None))"

text \<open>
  \<^verbatim>\<open>Meter.PostRegisterReading(quantity, uncertainty=None, read_time=None)\<close>: the
  defaults, the new register, the events, and the register advanced.
\<close>

definition PostRegisterReading ::
  "'s env \<Rightarrow> 's Meter \<Rightarrow> Quantity \<Rightarrow> Quantity option \<Rightarrow> real option \<Rightarrow> 's outcome" where
  "PostRegisterReading env self quantity_arg uncertainty_arg read_time_arg =
     (let read_time = (case read_time_arg of None \<Rightarrow> time_time env | Some t \<Rightarrow> t);
          uncertainty' = (case uncertainty_arg of None \<Rightarrow> uncertainty self | Some u \<Rightarrow> u)
      in case ConvertTo (units env) quantity_arg KILOWATT_HOUR of
           Inl e \<Rightarrow> raise self e
         | Inr new_register \<Rightarrow>
             advance (register_events env self new_register uncertainty' read_time)
               new_register read_time)"

text \<open>
  The first part of \<^verbatim>\<open>PostIntervalReading\<close>, "compute the new register value": the
  quantity as the rest of the method sees it, and the new register. \<^verbatim>\<open>not start_time\<close>
  holds for \<^verbatim>\<open>None\<close> and for zero. Where \<^verbatim>\<open>quantity *= ...\<close> yields
  \<^verbatim>\<open>None\<close>, the addition \<^verbatim>\<open>self.register + quantity\<close> calls \<^verbatim>\<open>None.ConvertTo\<close>
  and raises \<open>AttributeError\<close>.
\<close>

definition new_register_value ::
  "units \<Rightarrow> Quantity \<Rightarrow> Quantity \<Rightarrow> real option \<Rightarrow> real \<Rightarrow> error + Quantity \<times> Quantity" where
  "new_register_value U register_arg quantity_arg start_time_arg end_time_arg =
     (if start_time_arg = None \<or> start_time_arg = Some 0 then Inr (quantity_arg, register_arg)
      else
        (case start_time_arg of
           None \<Rightarrow> Inr (quantity_arg, register_arg)
         | Some s \<Rightarrow>
             (if Quantity_IsConvertibleTo U quantity_arg WATT then
                (case Quantity_mul U quantity_arg
                        (OfQuantity (Unit_rmul SECOND (end_time_arg - s))) of
                   None \<Rightarrow> Inl AttributeError
                 | Some quantity' \<Rightarrow>
                     bind (Quantity_add U register_arg quantity')
                       (\<lambda>new_register. Inr (quantity', new_register)))
              else
                bind (Quantity_add U register_arg quantity_arg)
                  (\<lambda>new_register. Inr (quantity_arg, new_register)))))"

text \<open>
  The second part of \<^verbatim>\<open>PostIntervalReading\<close>, "generate durational or
  instantaneous events", on the start and end times after the defaults.
\<close>

definition interval_events ::
  "'s env \<Rightarrow> 's Meter \<Rightarrow> Quantity \<Rightarrow> Quantity \<Rightarrow> Quantity \<Rightarrow> real option \<Rightarrow> real \<Rightarrow>
     's outcome" where
  "interval_events env self quantity_arg new_register uncertainty_arg start_time_arg
       end_time_arg =
     (if durational self then
        PostDur env self start_time_arg end_time_arg quantity_arg uncertainty_arg
      else
        (case last_read_time self of
           None \<Rightarrow>
             (case start_time_arg of
                None \<Rightarrow>
                  PostInst env self (Some end_time_arg) (register self) uncertainty_arg True
              | Some s \<Rightarrow>
                  and_then
                    (PostInst env self (Some s) (register self) uncertainty_arg True)
                    (\<lambda>self'. PostInst env self' (Some end_time_arg) new_register
                                uncertainty_arg False))
         | Some l \<Rightarrow>
             and_then
               (if start_time_arg \<noteq> Some l
                then PostInst env self start_time_arg (register self) uncertainty_arg True
                else returned self)
               (\<lambda>self'. PostInst env self' (Some end_time_arg) new_register
                           uncertainty_arg False)))"

text \<open>
  \<^verbatim>\<open>Meter.PostIntervalReading(quantity, uncertainty=None, start_time=None, end_time=None)\<close>:
  the defaults, the new register, the events, and the register advanced.
\<close>

definition PostIntervalReading ::
  "'s env \<Rightarrow> 's Meter \<Rightarrow> Quantity \<Rightarrow> Quantity option \<Rightarrow> real option \<Rightarrow> real option \<Rightarrow>
     's outcome" where
  "PostIntervalReading env self quantity_arg uncertainty_arg start_time_arg end_time_arg =
     (let start_time' = (case start_time_arg of None \<Rightarrow> last_read_time self | Some s \<Rightarrow> Some s);
          end_time' = (case end_time_arg of None \<Rightarrow> time_time env | Some e \<Rightarrow> e);
          uncertainty' = (case uncertainty_arg of None \<Rightarrow> uncertainty self | Some u \<Rightarrow> u)
      in case new_register_value (units env) (register self) quantity_arg start_time' end_time' of
           Inl e \<Rightarrow> raise self e
         | Inr (quantity', new_register) \<Rightarrow>
             advance
               (interval_events env self quantity' new_register uncertainty' start_time'
                  end_time')
               new_register end_time')"

text \<open>
  \<^verbatim>\<open>BatchAdapter.PostEvent\<close> appends the event to the adapter's queue and never
  raises. The environment of a meter on a batch adapter, with the module's units and a
  clock that reads \<open>now\<close>.
\<close>

definition BatchAdapter_PostEvent :: "event list \<Rightarrow> event \<Rightarrow> event list \<times> error option" where
  "BatchAdapter_PostEvent events e = (events @ [e], None)"

definition batch_env :: "units \<Rightarrow> real \<Rightarrow> event list env" where
  "batch_env U now =
     \<lparr>units = U, time_time = now, gmtime = posix_gmtime, PostEvent = BatchAdapter_PostEvent\<rparr>"

text \<open>A service whose \<^verbatim>\<open>PostEvent\<close> always raises, as a transport without a network does.\<close>

definition offline_env :: "units \<Rightarrow> real \<Rightarrow> unit env" where
  "offline_env U now =
     \<lparr>units = U, time_time = now, gmtime = posix_gmtime,
      PostEvent = (\<lambda>s e. (s, Some TransportError))\<rparr>"


text \<open>
  Posting changes the service of a meter and nothing else: \<open>frame m m'\<close> says that
  \<open>m'\<close> is \<open>m\<close> but for the service.
\<close>

definition frame :: "'s Meter \<Rightarrow> 's Meter \<Rightarrow> bool" where
  "frame m m' = (m' = m\<lparr>service := service m'\<rparr>)"


text \<open>
  Meters for examples: a new instantaneous and a new durational meter on a batch
  adapter with an empty queue, and a new instantaneous meter on a service of which
  nothing is modelled; each with an uncertainty of one watt-hour and of one second.
\<close>

definition fresh_inst_meter :: "event list Meter" where
  "fresh_inst_meter =
     Meter_init [] (Path ''/user/1/variable/v'') \<lparr>value = 0.001, unit = KILOWATT_HOUR\<rparr> 1
       False None"

definition fresh_dur_meter :: "event list Meter" where
  "fresh_dur_meter =
     Meter_init [] (Path ''/user/1/variable/v'') \<lparr>value = 0.001, unit = KILOWATT_HOUR\<rparr> 1
       True None"

definition offline_meter :: "unit Meter" where
  "offline_meter =
     Meter_init () (Path ''/user/1/variable/v'') \<lparr>value = 0.001, unit = KILOWATT_HOUR\<rparr> 1
       False None"


text \<open>
  An event is the instantaneous (durational) measurement with the given attributes,
  whatever its \<open>event_id\<close>, which is a function of its time.
\<close>

definition is_inst :: "event \<Rightarrow> string \<Rightarrow> real \<Rightarrow> Quantity \<Rightarrow> real \<Rightarrow> Quantity \<Rightarrow> bool \<Rightarrow> bool" where
  "is_inst ev p t q tu u i =
     (case ev of
        InstMeasurement p' t' q' tu' u' i' _ \<Rightarrow>
          p' = p \<and> t' = t \<and> q' = q \<and> tu' = tu \<and> u' = u \<and> i' = i
      | DurMeasurement _ _ _ _ _ _ _ _ \<Rightarrow> False)"

definition is_dur ::
  "event \<Rightarrow> string \<Rightarrow> real \<Rightarrow> real \<Rightarrow> Quantity \<Rightarrow> real \<Rightarrow> real \<Rightarrow> Quantity \<Rightarrow> bool" where
  "is_dur ev p s e q stu etu u =
     (case ev of
        DurMeasurement p' s' e' q' stu' etu' u' _ \<Rightarrow>
          p' = p \<and> s' = s \<and> e' = e \<and> q' = q \<and> stu' = stu \<and> etu' = etu \<and> u' = u
      | InstMeasurement _ _ _ _ _ _ _ \<Rightarrow> False)"


section \<open>The format of RFC 3339 and decimal fractions\<close>

text \<open>
  The format of RFC 3339 (section 5.6, \<^verbatim>\<open>date-time\<close>), which is also the format of the
  docstring of \<^verbatim>\<open>FromTimestamp\<close>: \<^verbatim>\<open>yyyy-mm-ddThh:mm:ss\<close>, an optional point
  with at least one digit, and a time zone \<^verbatim>\<open>Z\<close>, \<^verbatim>\<open>+hh:mm\<close> or \<^verbatim>\<open>-hh:mm\<close>, with
  nothing before or after. Only the syntax is checked, not the ranges of the fields.
\<close>

definition rfc3339_format :: "string \<Rightarrow> bool" where
  "rfc3339_format s =
     (case
        Option.bind (take_digits 4 s) (\<lambda>(_, s).
        Option.bind (take_char CHR ''-'' s) (\<lambda>s.
        Option.bind (take_digits 2 s) (\<lambda>(_, s).
        Option.bind (take_char CHR ''-'' s) (\<lambda>s.
        Option.bind (take_digits 2 s) (\<lambda>(_, s).
        Option.bind (take_char CHR ''T'' s) (\<lambda>s.
        Option.bind (take_digits 2 s) (\<lambda>(_, s).
        Option.bind (take_char CHR '':'' s) (\<lambda>s.
        Option.bind (take_digits 2 s) (\<lambda>(_, s).
        Option.bind (take_char CHR '':'' s) (\<lambda>s.
        Option.bind (take_digits 2 s) (\<lambda>(_, s).
          (case take_char CHR ''.'' s of
             None \<Rightarrow> Some s
           | Some f \<Rightarrow>
               if takeWhile is_digit f = [] then None
               else Some (dropWhile is_digit f)))))))))))))
      of
        None \<Rightarrow> False
      | Some z \<Rightarrow>
          z = ''Z'' \<or>
          (length z = 6 \<and> (z ! 0 = CHR ''+'' \<or> z ! 0 = CHR ''-'') \<and>
           is_digit (z ! 1) \<and> is_digit (z ! 2) \<and> z ! 3 = CHR '':'' \<and>
           is_digit (z ! 4) \<and> is_digit (z ! 5)))"




section \<open>Facts about the units\<close>

lemmas unit_refs = SECOND_def WATT_def JOULE_def KILOWATT_HOUR_def

lemma unit_refs_distinct:
  "SECOND \<noteq> WATT" "SECOND \<noteq> JOULE" "SECOND \<noteq> KILOWATT_HOUR"
  "WATT \<noteq> SECOND" "WATT \<noteq> JOULE" "WATT \<noteq> KILOWATT_HOUR"
  "JOULE \<noteq> SECOND" "JOULE \<noteq> WATT" "JOULE \<noteq> KILOWATT_HOUR"
  "KILOWATT_HOUR \<noteq> SECOND" "KILOWATT_HOUR \<noteq> WATT" "KILOWATT_HOUR \<noteq> JOULE"
  by (simp_all add: unit_refs)

lemma units_module_blank:
  "units_module blank = Inr std_units"
  by (simp add: std_units_def units_module_def Unit_init_def bind_def unit_refs)

lemma std_units_lookup:
  "std_units SECOND = \<lparr>symbol = ''s'', factor = 1, base = SECOND,
                       products = [WATT \<mapsto> JOULE], quotients = Map.empty\<rparr>"
  "std_units WATT = \<lparr>symbol = ''W'', factor = 1, base = WATT,
                     products = [SECOND \<mapsto> JOULE], quotients = Map.empty\<rparr>"
  "std_units JOULE = \<lparr>symbol = ''J'', factor = 1, base = JOULE,
                      products = Map.empty, quotients = [WATT \<mapsto> SECOND, SECOND \<mapsto> WATT]\<rparr>"
  "std_units KILOWATT_HOUR = \<lparr>symbol = ''kW h'', factor = 3600000, base = JOULE,
                              products = Map.empty, quotients = Map.empty\<rparr>"
  by (simp_all add: std_units_def units_module_def Unit_init_def bind_def unit_refs
        declare_factorization_def Let_def)

lemma loaded_std_units: "loaded std_units"
  by (simp add: loaded_def std_units_lookup)


lemma ConvertTo_AssertionError_iff:
  "ConvertTo U q u = Inl AssertionError \<longleftrightarrow> base (U u) \<noteq> base (U (unit q))"
  by (simp add: ConvertTo_def Unit_IsConvertibleTo_def)

lemma ConvertTo_Inr:
  "base (U u) = base (U (unit q)) \<Longrightarrow> factor (U u) \<noteq> 0 \<Longrightarrow>
   ConvertTo U q u = Inr \<lparr>value = value q * factor (U (unit q)) / factor (U u), unit = u\<rparr>"
  by (simp add: ConvertTo_def Unit_IsConvertibleTo_def)

lemma ConvertTo_ZeroDivisionError:
  "base (U u) = base (U (unit q)) \<Longrightarrow> factor (U u) = 0 \<Longrightarrow>
   ConvertTo U q u = Inl ZeroDivisionError"
  by (simp add: ConvertTo_def Unit_IsConvertibleTo_def)

lemma zero_factor_units_constructed:
  "Unit_init std_units 4 ''z'' 0 (Some JOULE) [] = Inr zero_factor_units"
  by (simp add: Unit_init_def zero_factor_units_def JOULE_def)

lemma zero_factor_units_lookup:
  "zero_factor_units 4 = \<lparr>symbol = ''z'', factor = 0, base = JOULE,
                            products = Map.empty, quotients = Map.empty\<rparr>"
  "zero_factor_units SECOND = std_units SECOND"
  "zero_factor_units WATT = std_units WATT"
  "zero_factor_units JOULE = std_units JOULE"
  "zero_factor_units KILOWATT_HOUR = std_units KILOWATT_HOUR"
  by (simp_all add: zero_factor_units_def unit_refs)


section \<open>Conversion\<close>

text \<open>
  C6, as stated: whenever the bases agree, \<open>ConvertTo\<close> returns the rescaled quantity.
  It does not for a target unit of factor zero: one joule converted to the unit
  \<^verbatim>\<open>Unit('z', 0, JOULE)\<close> passes the assertion (both bases are the joule) and then
  divides by zero.
\<close>

theorem ConvertTo_zero_factor_counterexample:
  "Unit_init std_units 4 ''z'' 0 (Some JOULE) [] = Inr zero_factor_units \<and>
   base (zero_factor_units 4) = base (zero_factor_units (unit \<lparr>value = 1, unit = JOULE\<rparr>)) \<and>
   ConvertTo zero_factor_units \<lparr>value = 1, unit = JOULE\<rparr> 4 = Inl ZeroDivisionError"
  by (simp add: zero_factor_units_constructed zero_factor_units_lookup std_units_lookup
        ConvertTo_def Unit_IsConvertibleTo_def)

text \<open>
  C6, amended: \<open>ConvertTo q u\<close> fails with the unit mismatch (the assertion) if and only if
  the base of \<open>u\<close> differs from the base of the unit of \<open>q\<close>; when the bases agree and the
  factor of \<open>u\<close> is not zero, it returns the quantity of unit \<open>u\<close> and of value
  \<open>value q * factor (unit q) / factor u\<close>, in real arithmetic; when the bases agree and
  the factor of \<open>u\<close> is zero, it raises the division by zero.
\<close>

theorem ConvertTo_spec:
  "(ConvertTo U q u = Inl AssertionError \<longleftrightarrow> base (U u) \<noteq> base (U (unit q))) \<and>
   (base (U u) = base (U (unit q)) \<and> factor (U u) \<noteq> 0 \<longrightarrow>
      ConvertTo U q u =
        Inr \<lparr>value = value q * factor (U (unit q)) / factor (U u), unit = u\<rparr>) \<and>
   (base (U u) = base (U (unit q)) \<and> factor (U u) = 0 \<longrightarrow>
      ConvertTo U q u = Inl ZeroDivisionError)"
  using ConvertTo_AssertionError_iff ConvertTo_Inr ConvertTo_ZeroDivisionError by blast

theorem ConvertTo_spec_witness:
  "ConvertTo std_units \<lparr>value = 2, unit = KILOWATT_HOUR\<rparr> JOULE =
     Inr \<lparr>value = 7200000, unit = JOULE\<rparr> \<and>
   ConvertTo std_units \<lparr>value = 2, unit = KILOWATT_HOUR\<rparr> WATT = Inl AssertionError \<and>
   ConvertTo zero_factor_units \<lparr>value = 2, unit = KILOWATT_HOUR\<rparr> 4 = Inl ZeroDivisionError"
proof -
  have 1: "base (std_units JOULE) = base (std_units (unit \<lparr>value = 2, unit = KILOWATT_HOUR\<rparr>))
           \<and> factor (std_units JOULE) \<noteq> 0"
    by (simp add: std_units_lookup)
  have 2: "base (std_units WATT) \<noteq> base (std_units (unit \<lparr>value = 2, unit = KILOWATT_HOUR\<rparr>))"
    by (simp add: std_units_lookup unit_refs_distinct)
  have 3: "base (zero_factor_units 4) =
             base (zero_factor_units (unit \<lparr>value = 2, unit = KILOWATT_HOUR\<rparr>))
           \<and> factor (zero_factor_units 4) = 0"
    by (simp add: zero_factor_units_lookup std_units_lookup)
  from 1 ConvertTo_spec [of std_units "\<lparr>value = 2, unit = KILOWATT_HOUR\<rparr>" JOULE]
  have a: "ConvertTo std_units \<lparr>value = 2, unit = KILOWATT_HOUR\<rparr> JOULE =
             Inr \<lparr>value = 7200000, unit = JOULE\<rparr>"
    by (simp add: std_units_lookup)
  from 2 ConvertTo_spec [of std_units "\<lparr>value = 2, unit = KILOWATT_HOUR\<rparr>" WATT]
  have b: "ConvertTo std_units \<lparr>value = 2, unit = KILOWATT_HOUR\<rparr> WATT = Inl AssertionError"
    by blast
  from 3 ConvertTo_spec [of zero_factor_units "\<lparr>value = 2, unit = KILOWATT_HOUR\<rparr>" 4]
  have c: "ConvertTo zero_factor_units \<lparr>value = 2, unit = KILOWATT_HOUR\<rparr> 4 =
             Inl ZeroDivisionError"
    by blast
  from a b c show ?thesis by blast
qed

section \<open>Facts about outcomes\<close>

lemma frame_refl [simp]: "frame m m"
  by (simp add: frame_def)

lemma frame_trans: "frame m m' \<Longrightarrow> frame m' m'' \<Longrightarrow> frame m m''"
  unfolding frame_def by (metis Meter.surjective Meter.update_convs(1))

lemma frame_fields:
  assumes "frame m m'"
  shows "variable m' = variable m" "uncertainty m' = uncertainty m"
    "time_uncertainty m' = time_uncertainty m" "durational m' = durational m"
    "register m' = register m" "last_read_time m' = last_read_time m"
proof -
  from assms have "m' = m\<lparr>service := service m'\<rparr>" by (simp add: frame_def)
  then obtain s where m': "m' = m\<lparr>service := s\<rparr>" ..
  show "variable m' = variable m" "uncertainty m' = uncertainty m"
    "time_uncertainty m' = time_uncertainty m" "durational m' = durational m"
    "register m' = register m" "last_read_time m' = last_read_time m"
    by (simp_all add: m')
qed

lemma raise_simps [simp]:
  "meter (raise m e) = m" "posted (raise m e) = []" "raised (raise m e) = Some e"
  by (simp_all add: raise_def)

lemma returned_simps [simp]:
  "meter (returned m) = m" "posted (returned m) = []" "raised (returned m) = None"
  by (simp_all add: returned_def)

lemma post_frame: "frame m (meter (post env m ev))"
  by (auto simp: post_def frame_def split: sum.splits prod.splits option.splits)

lemma post_returns:
  "raised (post env m ev) = None \<Longrightarrow> \<exists>e. ev = Inr e \<and> posted (post env m ev) = [e]"
  by (auto simp: post_def split: sum.splits prod.splits option.splits)

lemma post_raises: "raised (post env m ev) = Some x \<Longrightarrow> posted (post env m ev) = []"
  by (auto simp: post_def split: sum.splits prod.splits option.splits)

lemma and_then_frame:
  "frame m (meter r) \<Longrightarrow> (\<And>m'. frame m' (meter (f m'))) \<Longrightarrow> frame m (meter (and_then r f))"
  by (auto simp: and_then_def Let_def split: option.splits intro: frame_trans)

lemma and_then_returns:
  "raised (and_then r f) = None \<longleftrightarrow> raised r = None \<and> raised (f (meter r)) = None"
  by (auto simp: and_then_def Let_def split: option.splits)

lemma and_then_posted:
  "raised r = None \<Longrightarrow> posted (and_then r f) = posted r @ posted (f (meter r))"
  by (auto simp: and_then_def Let_def split: option.splits)

lemma advance_raised [simp]: "raised (advance r nr t) = raised r"
  by (auto simp: advance_def split: option.splits)

lemma advance_posted [simp]: "posted (advance r nr t) = posted r"
  by (auto simp: advance_def split: option.splits)

lemma advance_failed: "raised r \<noteq> None \<Longrightarrow> advance r nr t = r"
  by (auto simp: advance_def split: option.splits)

lemma advance_meter:
  "raised r = None \<Longrightarrow>
   meter (advance r nr t) = (meter r)\<lparr>register := nr, last_read_time := Some t\<rparr>"
  by (auto simp: advance_def split: option.splits)

lemma PostInst_frame: "frame m (meter (PostInst env m t q u i))"
  by (simp add: PostInst_def post_frame)

lemma PostDur_frame: "frame m (meter (PostDur env m s e q u))"
  by (simp add: PostDur_def post_frame)

lemma register_events_frame: "frame m (meter (register_events env m nr u t))"
  by (auto simp: register_events_def PostInst_frame PostDur_frame split: option.splits sum.splits)

lemma interval_events_frame: "frame m (meter (interval_events env m q nr u s t))"
  by (auto simp: interval_events_def PostInst_frame PostDur_frame
      split: option.splits intro!: and_then_frame)

lemma failed_advance:
  assumes "frame m (meter X)" and "raised (advance X nr t) \<noteq> None"
  shows "register (meter (advance X nr t)) = register m \<and>
         last_read_time (meter (advance X nr t)) = last_read_time m"
proof -
  from assms(2) have "raised X \<noteq> None" by simp
  then have "advance X nr t = X" by (rule advance_failed)
  with frame_fields [OF assms(1)] show ?thesis by simp
qed

lemma failed_PostRegisterReading:
  "raised (PostRegisterReading env m q u t) \<noteq> None \<Longrightarrow>
   register (meter (PostRegisterReading env m q u t)) = register m \<and>
   last_read_time (meter (PostRegisterReading env m q u t)) = last_read_time m"
  unfolding PostRegisterReading_def Let_def
  by (cases "ConvertTo (units env) q KILOWATT_HOUR")
     (simp_all add: failed_advance [OF register_events_frame])

lemma failed_PostIntervalReading:
  "raised (PostIntervalReading env m q u s e) \<noteq> None \<Longrightarrow>
   register (meter (PostIntervalReading env m q u s e)) = register m \<and>
   last_read_time (meter (PostIntervalReading env m q u s e)) = last_read_time m"
  unfolding PostIntervalReading_def Let_def
  by (cases "new_register_value (units env) (register m) q
         (case s of None \<Rightarrow> last_read_time m | Some x \<Rightarrow> Some x)
         (case e of None \<Rightarrow> time_time env | Some x \<Rightarrow> x)")
     (auto simp: failed_advance [OF interval_events_frame] split: prod.splits)

section \<open>Addition\<close>

lemma Quantity_add_AssertionError_iff:
  "Quantity_add U a b = Inl AssertionError \<longleftrightarrow> base (U (unit a)) \<noteq> base (U (unit b))"
  by (auto simp: Quantity_add_def bind_def ConvertTo_def Unit_IsConvertibleTo_def)

lemma Quantity_add_Inr:
  "base (U (unit a)) = base (U (unit b)) \<Longrightarrow> factor (U (unit a)) \<noteq> 0 \<Longrightarrow>
   Quantity_add U a b =
     Inr \<lparr>value = value a + value b * factor (U (unit b)) / factor (U (unit a)),
          unit = unit a\<rparr>"
  by (simp add: Quantity_add_def bind_def ConvertTo_def Unit_IsConvertibleTo_def)

lemma Quantity_sub_Inr:
  "base (U (unit a)) = base (U (unit b)) \<Longrightarrow> factor (U (unit a)) \<noteq> 0 \<Longrightarrow>
   Quantity_sub U a b =
     Inr \<lparr>value = value a - value b * factor (U (unit b)) / factor (U (unit a)),
          unit = unit a\<rparr>"
  by (simp add: Quantity_sub_def bind_def ConvertTo_def Unit_IsConvertibleTo_def)

lemma Quantity_add_commute:
  assumes b: "base (U (unit a)) = base (U (unit b))"
    and fa: "factor (U (unit a)) \<noteq> 0" and fb: "factor (U (unit b)) \<noteq> 0"
  shows "\<exists>s t. Quantity_add U a b = Inr s \<and> Quantity_add U b a = Inr t \<and>
           ConvertTo U t (unit a) = Inr s \<and> (\<forall>c. ConvertTo U s c = ConvertTo U t c)"
proof -
  let ?s = "\<lparr>value = value a + value b * factor (U (unit b)) / factor (U (unit a)),
             unit = unit a\<rparr>"
  let ?t = "\<lparr>value = value b + value a * factor (U (unit a)) / factor (U (unit b)),
             unit = unit b\<rparr>"
  have s: "Quantity_add U a b = Inr ?s" using b fa by (rule Quantity_add_Inr)
  have t: "Quantity_add U b a = Inr ?t" using b [symmetric] fb by (rule Quantity_add_Inr)
  have v: "(value b + value a * factor (U (unit a)) / factor (U (unit b))) * factor (U (unit b)) =
           (value a + value b * factor (U (unit b)) / factor (U (unit a))) * factor (U (unit a))"
    using fa fb by (simp add: field_simps)
  have ts: "ConvertTo U ?t (unit a) = Inr ?s"
    using b fa fb by (simp add: ConvertTo_def Unit_IsConvertibleTo_def field_simps)
  have c: "ConvertTo U ?s c = ConvertTo U ?t c" for c
    using b v by (simp add: ConvertTo_def Unit_IsConvertibleTo_def)
  from s t ts c show ?thesis by blast
qed

text \<open>
  C7, as stated: whenever the bases agree, the addition succeeds. It does not when the
  unit of the left operand has factor zero: the right operand is converted to that unit,
  which divides by zero.
\<close>

theorem Quantity_add_zero_factor_counterexample:
  "base (zero_factor_units (unit \<lparr>value = 1, unit = 4\<rparr>)) =
     base (zero_factor_units (unit \<lparr>value = 1, unit = JOULE\<rparr>)) \<and>
   Quantity_add zero_factor_units \<lparr>value = 1, unit = 4\<rparr> \<lparr>value = 1, unit = JOULE\<rparr> =
     Inl ZeroDivisionError"
  by (simp add: zero_factor_units_lookup std_units_lookup Quantity_add_def bind_def
        ConvertTo_def Unit_IsConvertibleTo_def)

text \<open>
  C7, amended: \<open>Quantity_add a b\<close> fails with the unit mismatch exactly when the bases of
  the two units differ. When the bases agree and the factor of the unit of \<open>a\<close> is not
  zero, it succeeds and the sum has the unit of \<open>a\<close>. When moreover the factor of the
  unit of \<open>b\<close> is not zero, \<open>Quantity_add b a\<close> succeeds too and the two sums are the same
  physical value: the second converted to the unit of \<open>a\<close> is the first, and the two
  convert alike to every unit (real arithmetic).
\<close>

theorem Quantity_add_spec:
  "(Quantity_add U a b = Inl AssertionError \<longleftrightarrow> base (U (unit a)) \<noteq> base (U (unit b))) \<and>
   (base (U (unit a)) = base (U (unit b)) \<and> factor (U (unit a)) \<noteq> 0 \<longrightarrow>
      Quantity_add U a b =
        Inr \<lparr>value = value a + value b * factor (U (unit b)) / factor (U (unit a)),
             unit = unit a\<rparr>) \<and>
   (base (U (unit a)) = base (U (unit b)) \<and> factor (U (unit a)) \<noteq> 0 \<and>
    factor (U (unit b)) \<noteq> 0 \<longrightarrow>
      (\<exists>s t. Quantity_add U a b = Inr s \<and> Quantity_add U b a = Inr t \<and>
             ConvertTo U t (unit a) = Inr s \<and> (\<forall>c. ConvertTo U s c = ConvertTo U t c)))"
  using Quantity_add_AssertionError_iff Quantity_add_Inr Quantity_add_commute by blast

theorem Quantity_add_spec_witness:
  "Quantity_add std_units \<lparr>value = 1, unit = KILOWATT_HOUR\<rparr> \<lparr>value = 3600000, unit = JOULE\<rparr> =
     Inr \<lparr>value = 2, unit = KILOWATT_HOUR\<rparr> \<and>
   Quantity_add std_units \<lparr>value = 3600000, unit = JOULE\<rparr> \<lparr>value = 1, unit = KILOWATT_HOUR\<rparr> =
     Inr \<lparr>value = 7200000, unit = JOULE\<rparr> \<and>
   ConvertTo std_units \<lparr>value = 7200000, unit = JOULE\<rparr> KILOWATT_HOUR =
     Inr \<lparr>value = 2, unit = KILOWATT_HOUR\<rparr> \<and>
   Quantity_add std_units \<lparr>value = 1, unit = KILOWATT_HOUR\<rparr> \<lparr>value = 1, unit = WATT\<rparr> =
     Inl AssertionError"
proof -
  let ?a = "\<lparr>value = 1, unit = KILOWATT_HOUR\<rparr>"
  let ?b = "\<lparr>value = 3600000, unit = JOULE\<rparr>"
  let ?w = "\<lparr>value = 1, unit = WATT\<rparr>"
  have h: "base (std_units (unit ?a)) = base (std_units (unit ?b)) \<and>
           factor (std_units (unit ?a)) \<noteq> 0 \<and> factor (std_units (unit ?b)) \<noteq> 0"
    by (simp add: std_units_lookup)
  have hw: "base (std_units (unit ?a)) \<noteq> base (std_units (unit ?w))"
    by (simp add: std_units_lookup unit_refs_distinct)
  from h Quantity_add_spec [of std_units ?a ?b]
  obtain s t where st: "Quantity_add std_units ?a ?b = Inr s"
      "Quantity_add std_units ?b ?a = Inr t" "ConvertTo std_units t (unit ?a) = Inr s"
    and s: "Quantity_add std_units ?a ?b =
        Inr \<lparr>value = value ?a + value ?b * factor (std_units (unit ?b)) / factor (std_units (unit ?a)),
             unit = unit ?a\<rparr>"
    by blast
  from s have s2: "Quantity_add std_units ?a ?b = Inr \<lparr>value = 2, unit = KILOWATT_HOUR\<rparr>"
    by (simp add: std_units_lookup)
  have t2: "Quantity_add std_units ?b ?a = Inr \<lparr>value = 7200000, unit = JOULE\<rparr>"
    by (simp add: Quantity_add_def bind_def ConvertTo_def Unit_IsConvertibleTo_def std_units_lookup)
  from st s2 t2 have c: "ConvertTo std_units \<lparr>value = 7200000, unit = JOULE\<rparr> KILOWATT_HOUR =
     Inr \<lparr>value = 2, unit = KILOWATT_HOUR\<rparr>"
    by simp
  from hw Quantity_add_spec [of std_units ?a ?w]
  have w: "Quantity_add std_units ?a ?w = Inl AssertionError" by blast
  from s2 t2 c w show ?thesis by blast
qed

section \<open>Multiplication and division\<close>

lemma kilowatt_units_constructed:
  "Unit_init std_units 4 ''kW'' 1000 (Some WATT) [] = Inr kilowatt_units"
  by (simp add: Unit_init_def kilowatt_units_def WATT_def)

lemma kilowatt_units_lookup:
  "kilowatt_units 4 = \<lparr>symbol = ''kW'', factor = 1000, base = WATT,
                         products = Map.empty, quotients = Map.empty\<rparr>"
  "kilowatt_units SECOND = std_units SECOND"
  "kilowatt_units WATT = std_units WATT"
  "kilowatt_units JOULE = std_units JOULE"
  "kilowatt_units KILOWATT_HOUR = std_units KILOWATT_HOUR"
  by (simp_all add: kilowatt_units_def unit_refs)

lemma Quantity_div_retry:
  "quotients (U (unit q)) (unit d) = None \<Longrightarrow> unit d \<noteq> unit q \<Longrightarrow>
   Quantity_div U (Suc depth) q (OfQuantity d) =
     bind (ConvertTo U q (base (U (unit q)))) (\<lambda>q'. Quantity_div U depth q' (OfQuantity d))"
  by simp

lemma Quantity_div_retry_unit:
  "quotients (U (unit q)) u = None \<Longrightarrow>
   Quantity_div U (Suc depth) q (OfUnit u) =
     bind (ConvertTo U q (base (U (unit q)))) (\<lambda>q'. Quantity_div U depth q' (OfUnit u))"
  by simp

lemma Quantity_div_example:
  "Quantity_div std_units 2 \<lparr>value = 2, unit = KILOWATT_HOUR\<rparr>
     (OfQuantity \<lparr>value = 3600, unit = SECOND\<rparr>) =
   Inr (QuantityResult \<lparr>value = 2000, unit = WATT\<rparr>)"
  by (simp add: numeral_2_eq_2 std_units_lookup unit_refs_distinct bind_def ConvertTo_def
        Unit_IsConvertibleTo_def)

text \<open>
  C5: the claim holds of division (\<open>Quantity_div_retry\<close>, \<open>Quantity_div_example\<close>) and
  fails of multiplication, which has no last line that retries on the base unit: two
  kilowatts, in a unit \<^verbatim>\<open>Unit('kW', 1000, WATT)\<close>, times 3600 seconds is \<^verbatim>\<open>None\<close>,
  although the same quantity converted to its base unit, the watt, multiplies to
  7200000 joules.
\<close>

theorem Quantity_mul_no_retry:
  "Unit_init std_units 4 ''kW'' 1000 (Some WATT) [] = Inr kilowatt_units \<and>
   products (kilowatt_units 4) SECOND = None \<and>
   Quantity_mul kilowatt_units \<lparr>value = 2, unit = 4\<rparr>
     (OfQuantity \<lparr>value = 3600, unit = SECOND\<rparr>) = None \<and>
   Quantity_mul kilowatt_units \<lparr>value = 2, unit = 4\<rparr> (OfUnit SECOND) = None \<and>
   ConvertTo kilowatt_units \<lparr>value = 2, unit = 4\<rparr> (base (kilowatt_units 4)) =
     Inr \<lparr>value = 2000, unit = WATT\<rparr> \<and>
   Quantity_mul kilowatt_units \<lparr>value = 2000, unit = WATT\<rparr>
     (OfQuantity \<lparr>value = 3600, unit = SECOND\<rparr>) = Some \<lparr>value = 7200000, unit = JOULE\<rparr>"
  by (simp add: kilowatt_units_constructed kilowatt_units_lookup std_units_lookup
        Quantity_mul_def ConvertTo_def Unit_IsConvertibleTo_def)

section \<open>Facts about events\<close>

lemma InstMeasurement_init_Inr:
  "InstMeasurement_init g v (Some t) q tu u i = Inr ev \<Longrightarrow>
   is_inst ev (GetEntityPath v) t q tu u i"
  by (auto simp: InstMeasurement_init_def bind_def is_inst_def split: sum.splits)

lemma DurMeasurement_init_Inr:
  "DurMeasurement_init g v (Some s) e q stu etu u = Inr ev \<Longrightarrow>
   is_dur ev (GetEntityPath v) s e q stu etu u"
  by (auto simp: DurMeasurement_init_def bind_def is_dur_def split: sum.splits)

lemma PostInst_returns:
  assumes "raised (PostInst env m (Some t) q u i) = None"
  shows "\<exists>ev. posted (PostInst env m (Some t) q u i) = [ev] \<and>
              is_inst ev (GetEntityPath (variable m)) t q (time_uncertainty m) u i"
  using post_returns [OF assms [unfolded PostInst_def]]
  by (auto simp: PostInst_def dest: InstMeasurement_init_Inr)

lemma PostDur_returns:
  assumes "raised (PostDur env m (Some s) e q u) = None"
  shows "\<exists>ev. posted (PostDur env m (Some s) e q u) = [ev] \<and>
              is_dur ev (GetEntityPath (variable m)) s e q (time_uncertainty m)
                (time_uncertainty m) u"
  using post_returns [OF assms [unfolded PostDur_def]]
  by (auto simp: PostDur_def dest: DurMeasurement_init_Inr)

lemma PostInst_raises:
  "raised (PostInst env m t q u i) \<noteq> None \<Longrightarrow> posted (PostInst env m t q u i) = []"
  by (auto simp: PostInst_def dest: post_raises)

lemma two_posts:
  assumes "raised (and_then (PostInst env m (Some t1) q1 u i1)
                    (\<lambda>m'. PostInst env m' (Some t2) q2 u i2)) = None"
  shows "\<exists>e1 e2. posted (and_then (PostInst env m (Some t1) q1 u i1)
                    (\<lambda>m'. PostInst env m' (Some t2) q2 u i2)) = [e1, e2] \<and>
           is_inst e1 (GetEntityPath (variable m)) t1 q1 (time_uncertainty m) u i1 \<and>
           is_inst e2 (GetEntityPath (variable m)) t2 q2 (time_uncertainty m) u i2"
proof -
  let ?r1 = "PostInst env m (Some t1) q1 u i1"
  let ?r2 = "PostInst env (meter ?r1) (Some t2) q2 u i2"
  from assms have r1: "raised ?r1 = None" and r2: "raised ?r2 = None"
    by (simp_all add: and_then_returns)
  from PostInst_returns [OF r1] obtain e1 where
    e1: "posted ?r1 = [e1]" "is_inst e1 (GetEntityPath (variable m)) t1 q1 (time_uncertainty m) u i1"
    by blast
  from PostInst_returns [OF r2] obtain e2 where
    e2: "posted ?r2 = [e2]"
      "is_inst e2 (GetEntityPath (variable (meter ?r1))) t2 q2 (time_uncertainty (meter ?r1)) u i2"
    by blast
  have f: "variable (meter ?r1) = variable m" "time_uncertainty (meter ?r1) = time_uncertainty m"
    using frame_fields [OF PostInst_frame] by blast+
  from e1 e2 f r1 show ?thesis by (simp add: and_then_posted)
qed

lemma one_post:
  assumes "raised (and_then (returned m) (\<lambda>m'. PostInst env m' (Some t2) q2 u i2)) = None"
  shows "\<exists>e2. posted (and_then (returned m) (\<lambda>m'. PostInst env m' (Some t2) q2 u i2)) = [e2] \<and>
           is_inst e2 (GetEntityPath (variable m)) t2 q2 (time_uncertainty m) u i2"
proof -
  from assms have r2: "raised (PostInst env m (Some t2) q2 u i2) = None"
    by (simp add: and_then_returns)
  from PostInst_returns [OF r2] show ?thesis by (simp add: and_then_posted)
qed

section \<open>A meter on a batch adapter\<close>

lemma batch_env_simps [simp]:
  "units (batch_env U n) = U" "time_time (batch_env U n) = n"
  "gmtime (batch_env U n) = posix_gmtime"
  "PostEvent (batch_env U n) = BatchAdapter_PostEvent"
  by (simp_all add: batch_env_def)

lemma timestamp_id_posix: "\<exists>i. timestamp_id posix_gmtime (Some t) = Inr i"
  by (auto simp: timestamp_id_def ToTimestamp_def posix_gmtime_def bind_def split: prod.splits)

lemma batch_PostInst_returns: "raised (PostInst (batch_env U n) m (Some t) q u i) = None"
proof -
  from timestamp_id_posix [of t] obtain x where "timestamp_id posix_gmtime (Some t) = Inr x" ..
  then show ?thesis
    by (simp add: PostInst_def post_def InstMeasurement_init_def bind_def
          BatchAdapter_PostEvent_def)
qed

lemma batch_PostDur_returns: "raised (PostDur (batch_env U n) m (Some s) e q u) = None"
proof -
  from timestamp_id_posix [of s] obtain x where "timestamp_id posix_gmtime (Some s) = Inr x" ..
  then show ?thesis
    by (simp add: PostDur_def post_def DurMeasurement_init_def bind_def
          BatchAdapter_PostEvent_def)
qed

lemma batch_interval_events_returns:
  "\<not> durational m \<Longrightarrow> last_read_time m = None \<or> s \<noteq> None \<Longrightarrow>
   raised (interval_events (batch_env U n) m q nr u s e) = None"
  by (auto simp: interval_events_def and_then_returns batch_PostInst_returns
      split: option.splits)

lemma batch_register_events_returns:
  "durational m \<longrightarrow> last_read_time m = None \<or> (\<exists>d. Quantity_sub U nr (register m) = Inr d) \<Longrightarrow>
   raised (register_events (batch_env U n) m nr u t) = None"
  by (auto simp: register_events_def batch_PostInst_returns batch_PostDur_returns
      split: option.splits)

lemma batch_PostIntervalReading_returns:
  assumes "\<not> durational m"
    and "new_register_value U (register m) q
           (case s of None \<Rightarrow> last_read_time m | Some x \<Rightarrow> Some x)
           (case e of None \<Rightarrow> n | Some x \<Rightarrow> x) = Inr (q', nr)"
  shows "raised (PostIntervalReading (batch_env U n) m q u s e) = None"
    and "register (meter (PostIntervalReading (batch_env U n) m q u s e)) = nr"
proof -
  have "last_read_time m = None \<or>
        (case s of None \<Rightarrow> last_read_time m | Some x \<Rightarrow> Some x) \<noteq> None"
    by (cases s) auto
  from batch_interval_events_returns [OF assms(1) this]
  show "raised (PostIntervalReading (batch_env U n) m q u s e) = None"
    and "register (meter (PostIntervalReading (batch_env U n) m q u s e)) = nr"
    using assms(2)
    by (simp_all add: PostIntervalReading_def Let_def advance_meter cong: option.case_cong)
qed

lemma batch_PostRegisterReading_returns:
  assumes "ConvertTo U q KILOWATT_HOUR = Inr nr"
    and "durational m \<longrightarrow> last_read_time m = None \<or>
           (\<exists>d. Quantity_sub U nr (register m) = Inr d)"
  shows "raised (PostRegisterReading (batch_env U n) m q u t) = None"
    and "register (meter (PostRegisterReading (batch_env U n) m q u t)) = nr"
  using assms(1) batch_register_events_returns [OF assms(2)]
  by (simp_all add: PostRegisterReading_def Let_def advance_meter cong: option.case_cong)

lemmas quantity_eval =
  new_register_value_def Quantity_IsConvertibleTo_def Unit_IsConvertibleTo_def
  Quantity_mul_def Quantity_add_def Quantity_sub_def ConvertTo_def Unit_rmul_def bind_def
  std_units_lookup unit_refs_distinct

lemma fresh_inst_meter_simps:
  "service fresh_inst_meter = []" "variable fresh_inst_meter = Path ''/user/1/variable/v''"
  "uncertainty fresh_inst_meter = \<lparr>value = 0.001, unit = KILOWATT_HOUR\<rparr>"
  "time_uncertainty fresh_inst_meter = 1" "\<not> durational fresh_inst_meter"
  "register fresh_inst_meter = \<lparr>value = 0, unit = KILOWATT_HOUR\<rparr>"
  "last_read_time fresh_inst_meter = None"
  by (simp_all add: fresh_inst_meter_def Meter_init_def Unit_rmul_def)

lemma fresh_dur_meter_simps:
  "service fresh_dur_meter = []" "variable fresh_dur_meter = Path ''/user/1/variable/v''"
  "uncertainty fresh_dur_meter = \<lparr>value = 0.001, unit = KILOWATT_HOUR\<rparr>"
  "time_uncertainty fresh_dur_meter = 1" "durational fresh_dur_meter"
  "register fresh_dur_meter = \<lparr>value = 0, unit = KILOWATT_HOUR\<rparr>"
  "last_read_time fresh_dur_meter = None"
  by (simp_all add: fresh_dur_meter_def Meter_init_def Unit_rmul_def)

section \<open>Failed readings\<close>

text \<open>
  C4: a call of \<open>PostRegisterReading\<close> or \<open>PostIntervalReading\<close> that raises, whatever
  raises (the conversion, the arithmetic on quantities, the construction of an event or
  the service), leaves the register and the time of the last reading of the meter as
  they were: both are assigned by the last two statements only.
\<close>

theorem failed_reading_keeps_state:
  "(raised (PostRegisterReading env m q u t) \<noteq> None \<longrightarrow>
      register (meter (PostRegisterReading env m q u t)) = register m \<and>
      last_read_time (meter (PostRegisterReading env m q u t)) = last_read_time m) \<and>
   (raised (PostIntervalReading env m q u s e) \<noteq> None \<longrightarrow>
      register (meter (PostIntervalReading env m q u s e)) = register m \<and>
      last_read_time (meter (PostIntervalReading env m q u s e)) = last_read_time m)"
  using failed_PostRegisterReading failed_PostIntervalReading by blast

theorem failed_reading_keeps_state_witness:
  "raised (PostRegisterReading (offline_env std_units 0) offline_meter
             \<lparr>value = 5, unit = KILOWATT_HOUR\<rparr> None (Some 100)) = Some TransportError \<and>
   register (meter (PostRegisterReading (offline_env std_units 0) offline_meter
             \<lparr>value = 5, unit = KILOWATT_HOUR\<rparr> None (Some 100))) =
     \<lparr>value = 0, unit = KILOWATT_HOUR\<rparr> \<and>
   last_read_time (meter (PostRegisterReading (offline_env std_units 0) offline_meter
             \<lparr>value = 5, unit = KILOWATT_HOUR\<rparr> None (Some 100))) = None \<and>
   raised (PostIntervalReading (offline_env std_units 0) offline_meter
             \<lparr>value = 5, unit = SECOND\<rparr> None (Some 10) (Some 20)) = Some AssertionError \<and>
   register (meter (PostIntervalReading (offline_env std_units 0) offline_meter
             \<lparr>value = 5, unit = SECOND\<rparr> None (Some 10) (Some 20))) =
     \<lparr>value = 0, unit = KILOWATT_HOUR\<rparr> \<and>
   last_read_time (meter (PostIntervalReading (offline_env std_units 0) offline_meter
             \<lparr>value = 5, unit = SECOND\<rparr> None (Some 10) (Some 20))) = None"
proof -
  let ?env = "offline_env std_units 0"
  let ?r1 = "PostRegisterReading ?env offline_meter \<lparr>value = 5, unit = KILOWATT_HOUR\<rparr> None (Some 100)"
  let ?r2 = "PostIntervalReading ?env offline_meter \<lparr>value = 5, unit = SECOND\<rparr> None (Some 10) (Some 20)"
  have m: "register offline_meter = \<lparr>value = 0, unit = KILOWATT_HOUR\<rparr>"
    "last_read_time offline_meter = None" "\<not> durational offline_meter"
    by (simp_all add: offline_meter_def Meter_init_def Unit_rmul_def)
  obtain x where x: "timestamp_id posix_gmtime (Some 100) = Inr x"
    using timestamp_id_posix by blast
  have f1: "raised ?r1 = Some TransportError"
    using x m
    by (simp add: PostRegisterReading_def offline_env_def quantity_eval register_events_def
          PostInst_def post_def InstMeasurement_init_def)
  have f2: "raised ?r2 = Some AssertionError"
    using m by (simp add: PostIntervalReading_def offline_env_def quantity_eval)
  from f1 failed_reading_keeps_state
    [where env = ?env and m = offline_meter and q = "\<lparr>value = 5, unit = KILOWATT_HOUR\<rparr>"
       and u = None and t = "Some 100"]
  have a: "register (meter ?r1) = \<lparr>value = 0, unit = KILOWATT_HOUR\<rparr> \<and>
           last_read_time (meter ?r1) = None"
    by (simp add: m)
  from f2 failed_reading_keeps_state
    [where env = ?env and m = offline_meter and q = "\<lparr>value = 5, unit = SECOND\<rparr>"
       and u = None and s = "Some 10" and e = "Some 20"]
  have b: "register (meter ?r2) = \<lparr>value = 0, unit = KILOWATT_HOUR\<rparr> \<and>
           last_read_time (meter ?r2) = None"
    by (simp add: m)
  from f1 f2 a b show ?thesis by blast
qed


section \<open>Interval readings on an instantaneous meter\<close>

lemma PostIntervalReading_Inr:
  assumes "raised (PostIntervalReading env m q u s e) = None"
  shows "\<exists>q' nr.
           new_register_value (units env) (register m) q
             (case s of None \<Rightarrow> last_read_time m | Some x \<Rightarrow> Some x)
             (case e of None \<Rightarrow> time_time env | Some x \<Rightarrow> x) = Inr (q', nr) \<and>
           raised (interval_events env m q' nr
             (case u of None \<Rightarrow> uncertainty m | Some x \<Rightarrow> x)
             (case s of None \<Rightarrow> last_read_time m | Some x \<Rightarrow> Some x)
             (case e of None \<Rightarrow> time_time env | Some x \<Rightarrow> x)) = None \<and>
           posted (PostIntervalReading env m q u s e) =
             posted (interval_events env m q' nr
               (case u of None \<Rightarrow> uncertainty m | Some x \<Rightarrow> x)
               (case s of None \<Rightarrow> last_read_time m | Some x \<Rightarrow> Some x)
               (case e of None \<Rightarrow> time_time env | Some x \<Rightarrow> x)) \<and>
           register (meter (PostIntervalReading env m q u s e)) = nr \<and>
           last_read_time (meter (PostIntervalReading env m q u s e)) =
             Some (case e of None \<Rightarrow> time_time env | Some x \<Rightarrow> x)"
  using assms unfolding PostIntervalReading_def Let_def
  by (cases "new_register_value (units env) (register m) q
         (case s of None \<Rightarrow> last_read_time m | Some x \<Rightarrow> Some x)
         (case e of None \<Rightarrow> time_time env | Some x \<Rightarrow> x)")
     (auto simp: advance_meter split: prod.splits)

lemma PostRegisterReading_Inr:
  assumes "raised (PostRegisterReading env m q u t) = None"
  shows "\<exists>nr.
           ConvertTo (units env) q KILOWATT_HOUR = Inr nr \<and>
           raised (register_events env m nr
             (case u of None \<Rightarrow> uncertainty m | Some x \<Rightarrow> x)
             (case t of None \<Rightarrow> time_time env | Some x \<Rightarrow> x)) = None \<and>
           posted (PostRegisterReading env m q u t) =
             posted (register_events env m nr
               (case u of None \<Rightarrow> uncertainty m | Some x \<Rightarrow> x)
               (case t of None \<Rightarrow> time_time env | Some x \<Rightarrow> x)) \<and>
           register (meter (PostRegisterReading env m q u t)) = nr \<and>
           last_read_time (meter (PostRegisterReading env m q u t)) =
             Some (case t of None \<Rightarrow> time_time env | Some x \<Rightarrow> x)"
  using assms unfolding PostRegisterReading_def Let_def
  by (cases "ConvertTo (units env) q KILOWATT_HOUR") (auto simp: advance_meter)

lemma interval_events_cases:
  assumes inst: "\<not> durational m"
    and ok: "raised (PostIntervalReading env m q u s e) = None"
  shows
    "(\<forall>S. last_read_time m = None \<and> s = Some S \<longrightarrow>
        (\<exists>e1 e2. posted (PostIntervalReading env m q u s e) = [e1, e2] \<and>
           is_inst e1 (GetEntityPath (variable m)) S (register m) (time_uncertainty m)
             (case u of None \<Rightarrow> uncertainty m | Some x \<Rightarrow> x) True \<and>
           is_inst e2 (GetEntityPath (variable m))
             (case e of None \<Rightarrow> time_time env | Some x \<Rightarrow> x)
             (register (meter (PostIntervalReading env m q u s e))) (time_uncertainty m)
             (case u of None \<Rightarrow> uncertainty m | Some x \<Rightarrow> x) False)) \<and>
     (\<forall>l. last_read_time m = Some l \<and> (s = None \<or> s = Some l) \<longrightarrow>
        (\<exists>e2. posted (PostIntervalReading env m q u s e) = [e2] \<and>
           is_inst e2 (GetEntityPath (variable m))
             (case e of None \<Rightarrow> time_time env | Some x \<Rightarrow> x)
             (register (meter (PostIntervalReading env m q u s e))) (time_uncertainty m)
             (case u of None \<Rightarrow> uncertainty m | Some x \<Rightarrow> x) False)) \<and>
     (\<forall>l S. last_read_time m = Some l \<and> s = Some S \<and> S \<noteq> l \<longrightarrow>
        (\<exists>e1 e2. posted (PostIntervalReading env m q u s e) = [e1, e2] \<and>
           is_inst e1 (GetEntityPath (variable m)) S (register m) (time_uncertainty m)
             (case u of None \<Rightarrow> uncertainty m | Some x \<Rightarrow> x) True \<and>
           is_inst e2 (GetEntityPath (variable m))
             (case e of None \<Rightarrow> time_time env | Some x \<Rightarrow> x)
             (register (meter (PostIntervalReading env m q u s e))) (time_uncertainty m)
             (case u of None \<Rightarrow> uncertainty m | Some x \<Rightarrow> x) False))"
proof -
  let ?E = "case e of None \<Rightarrow> time_time env | Some x \<Rightarrow> x"
  let ?u = "case u of None \<Rightarrow> uncertainty m | Some x \<Rightarrow> x"
  let ?s = "case s of None \<Rightarrow> last_read_time m | Some x \<Rightarrow> Some x"
  from PostIntervalReading_Inr [OF ok] obtain q' nr where
    ev: "raised (interval_events env m q' nr ?u ?s ?E) = None"
    and p: "posted (PostIntervalReading env m q u s e) =
            posted (interval_events env m q' nr ?u ?s ?E)"
    and nr: "register (meter (PostIntervalReading env m q u s e)) = nr"
    by blast
  let ?P = "posted (interval_events env m q' nr ?u ?s ?E)"
  have first: "\<exists>e1 e2. ?P = [e1, e2] \<and>
           is_inst e1 (GetEntityPath (variable m)) S (register m) (time_uncertainty m) ?u True \<and>
           is_inst e2 (GetEntityPath (variable m)) ?E nr (time_uncertainty m) ?u False"
    if "last_read_time m = None" "s = Some S" for S
    using that inst ev two_posts [of env m S "register m" ?u True ?E nr False]
    by (simp add: interval_events_def)
  have same: "\<exists>e2. ?P = [e2] \<and>
           is_inst e2 (GetEntityPath (variable m)) ?E nr (time_uncertainty m) ?u False"
    if "last_read_time m = Some l" "s = None \<or> s = Some l" for l
    using that inst ev one_post [of m env ?E nr ?u False]
    by (auto simp: interval_events_def)
  have differs: "\<exists>e1 e2. ?P = [e1, e2] \<and>
           is_inst e1 (GetEntityPath (variable m)) S (register m) (time_uncertainty m) ?u True \<and>
           is_inst e2 (GetEntityPath (variable m)) ?E nr (time_uncertainty m) ?u False"
    if "last_read_time m = Some l" "s = Some S" "S \<noteq> l" for l S
    using that inst ev two_posts [of env m S "register m" ?u True ?E nr False]
    by (simp add: interval_events_def)
  from first same differs show ?thesis unfolding nr p by blast
qed


text \<open>
  C2: on an instantaneous meter, a call of \<open>PostIntervalReading\<close> that returns has
  posted: on a meter without a prior reading and with an explicit start \<open>S\<close>, exactly two
  instantaneous measurements, the first at \<open>S\<close> with the old register and marked
  initial, the second at the end with the new register and not marked initial; on a
  meter with a prior reading, exactly one (the second of these) when the start is the
  time of the last reading, given or by default, and both when the start differs.
\<close>

theorem instantaneous_interval_events:
  assumes inst: "\<not> durational m"
    and ok: "raised (PostIntervalReading env m q u s e) = None"
  shows
    "(\<forall>S. last_read_time m = None \<and> s = Some S \<longrightarrow>
        (\<exists>e1 e2. posted (PostIntervalReading env m q u s e) = [e1, e2] \<and>
           is_inst e1 (GetEntityPath (variable m)) S (register m) (time_uncertainty m)
             (case u of None \<Rightarrow> uncertainty m | Some x \<Rightarrow> x) True \<and>
           is_inst e2 (GetEntityPath (variable m))
             (case e of None \<Rightarrow> time_time env | Some x \<Rightarrow> x)
             (register (meter (PostIntervalReading env m q u s e))) (time_uncertainty m)
             (case u of None \<Rightarrow> uncertainty m | Some x \<Rightarrow> x) False)) \<and>
     (\<forall>l. last_read_time m = Some l \<and> (s = None \<or> s = Some l) \<longrightarrow>
        (\<exists>e2. posted (PostIntervalReading env m q u s e) = [e2] \<and>
           is_inst e2 (GetEntityPath (variable m))
             (case e of None \<Rightarrow> time_time env | Some x \<Rightarrow> x)
             (register (meter (PostIntervalReading env m q u s e))) (time_uncertainty m)
             (case u of None \<Rightarrow> uncertainty m | Some x \<Rightarrow> x) False)) \<and>
     (\<forall>l S. last_read_time m = Some l \<and> s = Some S \<and> S \<noteq> l \<longrightarrow>
        (\<exists>e1 e2. posted (PostIntervalReading env m q u s e) = [e1, e2] \<and>
           is_inst e1 (GetEntityPath (variable m)) S (register m) (time_uncertainty m)
             (case u of None \<Rightarrow> uncertainty m | Some x \<Rightarrow> x) True \<and>
           is_inst e2 (GetEntityPath (variable m))
             (case e of None \<Rightarrow> time_time env | Some x \<Rightarrow> x)
             (register (meter (PostIntervalReading env m q u s e))) (time_uncertainty m)
             (case u of None \<Rightarrow> uncertainty m | Some x \<Rightarrow> x) False))"
  using inst ok by (rule interval_events_cases)

theorem instantaneous_interval_events_witness:
  "(\<exists>e1 e2.
      posted (PostIntervalReading (batch_env std_units 0) fresh_inst_meter
                \<lparr>value = 2000, unit = WATT\<rparr> None (Some 3600) (Some 7200)) = [e1, e2] \<and>
      is_inst e1 ''/user/1/variable/v'' 3600 \<lparr>value = 0, unit = KILOWATT_HOUR\<rparr> 1
        \<lparr>value = 0.001, unit = KILOWATT_HOUR\<rparr> True \<and>
      is_inst e2 ''/user/1/variable/v'' 7200 \<lparr>value = 2, unit = KILOWATT_HOUR\<rparr> 1
        \<lparr>value = 0.001, unit = KILOWATT_HOUR\<rparr> False) \<and>
   (\<exists>e2.
      posted (PostIntervalReading (batch_env std_units 0)
                (fresh_inst_meter\<lparr>register := \<lparr>value = 2, unit = KILOWATT_HOUR\<rparr>,
                                   last_read_time := Some 7200\<rparr>)
                \<lparr>value = 1, unit = KILOWATT_HOUR\<rparr> None (Some 7200) (Some 10800)) = [e2] \<and>
      is_inst e2 ''/user/1/variable/v'' 10800 \<lparr>value = 3, unit = KILOWATT_HOUR\<rparr> 1
        \<lparr>value = 0.001, unit = KILOWATT_HOUR\<rparr> False) \<and>
   (\<exists>e1 e2.
      posted (PostIntervalReading (batch_env std_units 0)
                (fresh_inst_meter\<lparr>register := \<lparr>value = 2, unit = KILOWATT_HOUR\<rparr>,
                                   last_read_time := Some 7200\<rparr>)
                \<lparr>value = 1, unit = KILOWATT_HOUR\<rparr> None (Some 9000) (Some 10800)) = [e1, e2] \<and>
      is_inst e1 ''/user/1/variable/v'' 9000 \<lparr>value = 2, unit = KILOWATT_HOUR\<rparr> 1
        \<lparr>value = 0.001, unit = KILOWATT_HOUR\<rparr> True \<and>
      is_inst e2 ''/user/1/variable/v'' 10800 \<lparr>value = 3, unit = KILOWATT_HOUR\<rparr> 1
        \<lparr>value = 0.001, unit = KILOWATT_HOUR\<rparr> False)"
proof -
  let ?env = "batch_env std_units 0"
  let ?m2 = "fresh_inst_meter\<lparr>register := \<lparr>value = 2, unit = KILOWATT_HOUR\<rparr>,
                              last_read_time := Some 7200\<rparr>"
  let ?r1 = "PostIntervalReading ?env fresh_inst_meter
               \<lparr>value = 2000, unit = WATT\<rparr> None (Some 3600) (Some 7200)"
  let ?r2 = "PostIntervalReading ?env ?m2
               \<lparr>value = 1, unit = KILOWATT_HOUR\<rparr> None (Some 7200) (Some 10800)"
  have n1: "new_register_value std_units (register fresh_inst_meter)
              \<lparr>value = 2000, unit = WATT\<rparr>
              (case Some 3600 of None \<Rightarrow> last_read_time fresh_inst_meter | Some x \<Rightarrow> Some x)
              (case Some 7200 of None \<Rightarrow> 0 | Some x \<Rightarrow> x) =
            Inr (\<lparr>value = 7200000, unit = JOULE\<rparr>, \<lparr>value = 2, unit = KILOWATT_HOUR\<rparr>)"
    by (simp add: quantity_eval fresh_inst_meter_simps)
  have n2: "new_register_value std_units (register ?m2)
              \<lparr>value = 1, unit = KILOWATT_HOUR\<rparr>
              (case Some 7200 of None \<Rightarrow> last_read_time ?m2 | Some x \<Rightarrow> Some x)
              (case Some 10800 of None \<Rightarrow> 0 | Some x \<Rightarrow> x) =
            Inr (\<lparr>value = 1, unit = KILOWATT_HOUR\<rparr>, \<lparr>value = 3, unit = KILOWATT_HOUR\<rparr>)"
    by (simp add: quantity_eval)
  let ?r3 = "PostIntervalReading ?env ?m2
               \<lparr>value = 1, unit = KILOWATT_HOUR\<rparr> None (Some 9000) (Some 10800)"
  have n3: "new_register_value std_units (register ?m2)
              \<lparr>value = 1, unit = KILOWATT_HOUR\<rparr>
              (case Some 9000 of None \<Rightarrow> last_read_time ?m2 | Some x \<Rightarrow> Some x)
              (case Some 10800 of None \<Rightarrow> 0 | Some x \<Rightarrow> x) =
            Inr (\<lparr>value = 1, unit = KILOWATT_HOUR\<rparr>, \<lparr>value = 3, unit = KILOWATT_HOUR\<rparr>)"
    by (simp add: quantity_eval)
  have i2: "\<not> durational ?m2" by (simp add: fresh_inst_meter_simps)
  note r3 = batch_PostIntervalReading_returns [where u = "None :: Quantity option", OF i2 n3]
  note r1 = batch_PostIntervalReading_returns
    [where u = "None :: Quantity option", OF fresh_inst_meter_simps(5) n1]
  note r2 = batch_PostIntervalReading_returns [where u = "None :: Quantity option", OF i2 n2]
  from instantaneous_interval_events [OF fresh_inst_meter_simps(5) r1(1)]
  have a: "\<exists>e1 e2. posted ?r1 = [e1, e2] \<and>
      is_inst e1 ''/user/1/variable/v'' 3600 \<lparr>value = 0, unit = KILOWATT_HOUR\<rparr> 1
        \<lparr>value = 0.001, unit = KILOWATT_HOUR\<rparr> True \<and>
      is_inst e2 ''/user/1/variable/v'' 7200 \<lparr>value = 2, unit = KILOWATT_HOUR\<rparr> 1
        \<lparr>value = 0.001, unit = KILOWATT_HOUR\<rparr> False"
    by (simp add: r1(2) fresh_inst_meter_simps GetEntityPath_def)
  from instantaneous_interval_events [OF i2 r2(1)]
  have b: "\<exists>e2. posted ?r2 = [e2] \<and>
      is_inst e2 ''/user/1/variable/v'' 10800 \<lparr>value = 3, unit = KILOWATT_HOUR\<rparr> 1
        \<lparr>value = 0.001, unit = KILOWATT_HOUR\<rparr> False"
    by (simp add: r2(2) fresh_inst_meter_simps GetEntityPath_def)
  from instantaneous_interval_events [OF i2 r3(1)]
  have c: "\<exists>e1 e2. posted ?r3 = [e1, e2] \<and>
      is_inst e1 ''/user/1/variable/v'' 9000 \<lparr>value = 2, unit = KILOWATT_HOUR\<rparr> 1
        \<lparr>value = 0.001, unit = KILOWATT_HOUR\<rparr> True \<and>
      is_inst e2 ''/user/1/variable/v'' 10800 \<lparr>value = 3, unit = KILOWATT_HOUR\<rparr> 1
        \<lparr>value = 0.001, unit = KILOWATT_HOUR\<rparr> False"
    by (simp add: r3(2) fresh_inst_meter_simps GetEntityPath_def)
  from a b c show ?thesis by blast
qed

section \<open>Reset\<close>

text \<open>
  C8: \<open>Reset\<close> sets the time of the last reading to \<open>None\<close> and changes no other field;
  the meter it leaves is the meter that the constructor makes from the same service,
  variable, uncertainties and mode, with the current register in place of zero, so every
  later call behaves on the one as on the other. The next \<open>PostRegisterReading\<close>, if it
  returns, posts one instantaneous measurement marked initial on an instantaneous meter;
  on a durational meter it posts nothing.
\<close>

theorem Reset_spec:
  "last_read_time (Reset m) = None \<and> register (Reset m) = register m \<and>
   uncertainty (Reset m) = uncertainty m \<and> time_uncertainty (Reset m) = time_uncertainty m \<and>
   durational (Reset m) = durational m \<and> service (Reset m) = service m \<and>
   variable (Reset m) = variable m \<and>
   Reset m =
     (Meter_init (service m) (variable m) (uncertainty m) (time_uncertainty m) (durational m)
        None)\<lparr>register := register m\<rparr> \<and>
   PostRegisterReading env (Reset m) q u t =
     PostRegisterReading env
       ((Meter_init (service m) (variable m) (uncertainty m) (time_uncertainty m)
           (durational m) None)\<lparr>register := register m\<rparr>) q u t \<and>
   (\<not> durational m \<and> raised (PostRegisterReading env (Reset m) q u t) = None \<longrightarrow>
      (\<exists>ev. posted (PostRegisterReading env (Reset m) q u t) = [ev] \<and>
         is_inst ev (GetEntityPath (variable m))
           (case t of None \<Rightarrow> time_time env | Some x \<Rightarrow> x)
           (register (meter (PostRegisterReading env (Reset m) q u t))) (time_uncertainty m)
           (case u of None \<Rightarrow> uncertainty m | Some x \<Rightarrow> x) True)) \<and>
   (durational m \<longrightarrow> posted (PostRegisterReading env (Reset m) q u t) = [])"
proof -
  have eq: "Reset m =
     (Meter_init (service m) (variable m) (uncertainty m) (time_uncertainty m) (durational m)
        None)\<lparr>register := register m\<rparr>"
    by (cases m) (simp add: Reset_def Meter_init_def)
  have inst: "\<exists>ev. posted (PostRegisterReading env (Reset m) q u t) = [ev] \<and>
         is_inst ev (GetEntityPath (variable m))
           (case t of None \<Rightarrow> time_time env | Some x \<Rightarrow> x)
           (register (meter (PostRegisterReading env (Reset m) q u t))) (time_uncertainty m)
           (case u of None \<Rightarrow> uncertainty m | Some x \<Rightarrow> x) True"
    if "\<not> durational m" "raised (PostRegisterReading env (Reset m) q u t) = None"
  proof -
    from PostRegisterReading_Inr [OF that(2)] obtain nr where
      ev: "raised (register_events env (Reset m) nr
             (case u of None \<Rightarrow> uncertainty (Reset m) | Some x \<Rightarrow> x)
             (case t of None \<Rightarrow> time_time env | Some x \<Rightarrow> x)) = None"
      and p: "posted (PostRegisterReading env (Reset m) q u t) =
             posted (register_events env (Reset m) nr
               (case u of None \<Rightarrow> uncertainty (Reset m) | Some x \<Rightarrow> x)
               (case t of None \<Rightarrow> time_time env | Some x \<Rightarrow> x))"
      and nr: "register (meter (PostRegisterReading env (Reset m) q u t)) = nr"
      by blast
    from that(1) ev
      PostInst_returns [of env "Reset m" "case t of None \<Rightarrow> time_time env | Some x \<Rightarrow> x" nr
        "case u of None \<Rightarrow> uncertainty (Reset m) | Some x \<Rightarrow> x" True]
    show ?thesis unfolding p nr by (simp add: register_events_def Reset_def cong: option.case_cong)
  qed
  have dur: "posted (PostRegisterReading env (Reset m) q u t) = []" if "durational m"
    using that unfolding PostRegisterReading_def Let_def
    by (cases "ConvertTo (units env) q KILOWATT_HOUR")
       (simp_all add: register_events_def Reset_def)
  have fields: "last_read_time (Reset m) = None \<and> register (Reset m) = register m \<and>
      uncertainty (Reset m) = uncertainty m \<and>
      time_uncertainty (Reset m) = time_uncertainty m \<and>
      durational (Reset m) = durational m \<and> service (Reset m) = service m \<and>
      variable (Reset m) = variable m"
    by (simp add: Reset_def)
  have same: "PostRegisterReading env (Reset m) q u t =
     PostRegisterReading env
       ((Meter_init (service m) (variable m) (uncertainty m) (time_uncertainty m)
           (durational m) None)\<lparr>register := register m\<rparr>) q u t"
    by (rule arg_cong [where f = "\<lambda>x. PostRegisterReading env x q u t", OF eq])
  from fields eq same inst dur show ?thesis by blast
qed

theorem Reset_spec_witness:
  "(\<exists>ev. posted (PostRegisterReading (batch_env std_units 0)
               (Reset (fresh_inst_meter\<lparr>register := \<lparr>value = 5, unit = KILOWATT_HOUR\<rparr>,
                                         last_read_time := Some 100\<rparr>))
               \<lparr>value = 1, unit = KILOWATT_HOUR\<rparr> None (Some 200)) = [ev] \<and>
      is_inst ev ''/user/1/variable/v'' 200 \<lparr>value = 1, unit = KILOWATT_HOUR\<rparr> 1
        \<lparr>value = 0.001, unit = KILOWATT_HOUR\<rparr> True) \<and>
   posted (PostRegisterReading (batch_env std_units 0)
             (Reset (fresh_dur_meter\<lparr>register := \<lparr>value = 5, unit = KILOWATT_HOUR\<rparr>,
                                      last_read_time := Some 100\<rparr>))
             \<lparr>value = 8, unit = KILOWATT_HOUR\<rparr> None (Some 200)) = []"
proof -
  let ?env = "batch_env std_units 0"
  let ?m = "fresh_inst_meter\<lparr>register := \<lparr>value = 5, unit = KILOWATT_HOUR\<rparr>,
                             last_read_time := Some 100\<rparr>"
  let ?d = "fresh_dur_meter\<lparr>register := \<lparr>value = 5, unit = KILOWATT_HOUR\<rparr>,
                            last_read_time := Some 100\<rparr>"
  let ?r = "PostRegisterReading ?env (Reset ?m) \<lparr>value = 1, unit = KILOWATT_HOUR\<rparr> None (Some 200)"
  have c: "ConvertTo std_units \<lparr>value = 1, unit = KILOWATT_HOUR\<rparr> KILOWATT_HOUR =
             Inr \<lparr>value = 1, unit = KILOWATT_HOUR\<rparr>"
    by (simp add: quantity_eval)
  have i: "\<not> durational ?m" "durational ?d" "\<not> durational (Reset ?m)"
    by (simp_all add: fresh_inst_meter_simps fresh_dur_meter_simps Reset_def)
  from i(3) have "durational (Reset ?m) \<longrightarrow> last_read_time (Reset ?m) = None \<or>
           (\<exists>d. Quantity_sub std_units \<lparr>value = 1, unit = KILOWATT_HOUR\<rparr> (register (Reset ?m)) = Inr d)"
    by blast
  note r = batch_PostRegisterReading_returns
    [where n = 0 and u = "None :: Quantity option" and t = "Some 200", OF c this]
  from Reset_spec [of ?m ?env "\<lparr>value = 1, unit = KILOWATT_HOUR\<rparr>" None "Some 200"]
  have "\<not> durational ?m \<and> raised ?r = None \<longrightarrow>
      (\<exists>ev. posted ?r = [ev] \<and>
         is_inst ev (GetEntityPath (variable ?m))
           (case Some 200 of None \<Rightarrow> time_time ?env | Some x \<Rightarrow> x)
           (register (meter ?r)) (time_uncertainty ?m)
           (case None of None \<Rightarrow> uncertainty ?m | Some x \<Rightarrow> x) True)"
    by blast
  with i(1) r(1) obtain ev where "posted ?r = [ev]"
    "is_inst ev (GetEntityPath (variable ?m))
           (case Some 200 of None \<Rightarrow> time_time ?env | Some x \<Rightarrow> x)
           (register (meter ?r)) (time_uncertainty ?m)
           (case None of None \<Rightarrow> uncertainty ?m | Some x \<Rightarrow> x) True"
    by blast
  then have a: "\<exists>ev. posted ?r = [ev] \<and>
      is_inst ev ''/user/1/variable/v'' 200 \<lparr>value = 1, unit = KILOWATT_HOUR\<rparr> 1
        \<lparr>value = 0.001, unit = KILOWATT_HOUR\<rparr> True"
    by (simp add: r(2) fresh_inst_meter_simps GetEntityPath_def)
  from i(2) Reset_spec [of ?d ?env "\<lparr>value = 8, unit = KILOWATT_HOUR\<rparr>" None "Some 200"]
  have b: "posted (PostRegisterReading ?env (Reset ?d) \<lparr>value = 8, unit = KILOWATT_HOUR\<rparr>
             None (Some 200)) = []"
    by blast
  from a b show ?thesis by blast
qed

section \<open>The unit of the register\<close>

lemma ConvertTo_unit: "ConvertTo U q u = Inr q' \<Longrightarrow> unit q' = u \<and> factor (U u) \<noteq> 0"
  by (auto simp: ConvertTo_def split: if_splits)

lemma Quantity_add_unit: "Quantity_add U a b = Inr s \<Longrightarrow> unit s = unit a"
  by (auto simp: Quantity_add_def bind_def split: sum.splits)

lemma new_register_value_unit:
  "new_register_value U reg q s e = Inr (q', nr) \<Longrightarrow> unit nr = unit reg"
  by (auto simp: new_register_value_def bind_def
      split: if_splits option.splits sum.splits dest: Quantity_add_unit)

lemma Meter_init_register_unit:
  "unit (register (Meter_init sv v u tu d l)) = KILOWATT_HOUR"
  by (simp add: Meter_init_def Unit_rmul_def)

lemma Reset_register_unit: "unit (register (Reset m)) = unit (register m)"
  by (simp add: Reset_def)

lemma PostRegisterReading_register_unit:
  assumes "unit (register m) = KILOWATT_HOUR"
  shows "unit (register (meter (PostRegisterReading env m q u t))) = KILOWATT_HOUR"
proof (cases "raised (PostRegisterReading env m q u t)")
  case None
  from PostRegisterReading_Inr [OF None] show ?thesis by (auto dest: ConvertTo_unit)
next
  case (Some x)
  then show ?thesis using failed_PostRegisterReading [of env m q u t] assms by simp
qed

lemma PostIntervalReading_register_unit:
  assumes "unit (register m) = KILOWATT_HOUR"
  shows "unit (register (meter (PostIntervalReading env m q u s e))) = KILOWATT_HOUR"
proof (cases "raised (PostIntervalReading env m q u s e)")
  case None
  from PostIntervalReading_Inr [OF None] show ?thesis
    using assms by (auto dest: new_register_value_unit)
next
  case (Some x)
  then show ?thesis using failed_PostIntervalReading [of env m q u s e] assms by simp
qed

section \<open>Register readings on a durational meter\<close>

lemma register_delta:
  assumes "unit reg = KILOWATT_HOUR" and "ConvertTo U q KILOWATT_HOUR = Inr nr"
  shows "Quantity_sub U nr reg = Inr \<lparr>value = value nr - value reg, unit = KILOWATT_HOUR\<rparr>"
  using assms ConvertTo_unit [OF assms(2)]
  by (simp add: Quantity_sub_def bind_def ConvertTo_def Unit_IsConvertibleTo_def)

text \<open>
  C3: on a durational meter, a call of \<open>PostRegisterReading\<close> without a prior reading
  posts nothing, and whenever the quantity converts to kilowatt-hours it returns with
  the register set to the converted quantity and the time of the last reading set to the
  read time. With a prior reading at \<open>l\<close> (and the register in kilowatt-hours, as the
  constructor and both reading methods leave it), a call that returns has posted exactly
  one durational measurement, from \<open>l\<close> to the read time, whose quantity is the new
  register minus the old one and whose uncertainty is twice the uncertainty given (or the
  meter's own); the register and the time of the last reading are advanced likewise.
\<close>

theorem durational_register_reading:
  assumes dur: "durational m"
  shows
    "(last_read_time m = None \<longrightarrow>
        posted (PostRegisterReading env m q u t) = [] \<and>
        (\<forall>nr. ConvertTo (units env) q KILOWATT_HOUR = Inr nr \<longrightarrow>
           raised (PostRegisterReading env m q u t) = None \<and>
           register (meter (PostRegisterReading env m q u t)) = nr \<and>
           last_read_time (meter (PostRegisterReading env m q u t)) =
             Some (case t of None \<Rightarrow> time_time env | Some x \<Rightarrow> x))) \<and>
     (\<forall>l. last_read_time m = Some l \<and> unit (register m) = KILOWATT_HOUR \<and>
          raised (PostRegisterReading env m q u t) = None \<longrightarrow>
        (\<exists>ev. posted (PostRegisterReading env m q u t) = [ev] \<and>
           is_dur ev (GetEntityPath (variable m)) l
             (case t of None \<Rightarrow> time_time env | Some x \<Rightarrow> x)
             \<lparr>value = value (register (meter (PostRegisterReading env m q u t))) -
                        value (register m),
              unit = KILOWATT_HOUR\<rparr>
             (time_uncertainty m) (time_uncertainty m)
             \<lparr>value = value (case u of None \<Rightarrow> uncertainty m | Some x \<Rightarrow> x) * 2,
              unit = unit (case u of None \<Rightarrow> uncertainty m | Some x \<Rightarrow> x)\<rparr>) \<and>
        ConvertTo (units env) q KILOWATT_HOUR =
          Inr (register (meter (PostRegisterReading env m q u t))) \<and>
        last_read_time (meter (PostRegisterReading env m q u t)) =
          Some (case t of None \<Rightarrow> time_time env | Some x \<Rightarrow> x))"
proof -
  let ?T = "case t of None \<Rightarrow> time_time env | Some x \<Rightarrow> x"
  let ?u = "case u of None \<Rightarrow> uncertainty m | Some x \<Rightarrow> x"
  let ?r = "PostRegisterReading env m q u t"
  have first: "posted ?r = []" if "last_read_time m = None"
    using that dur unfolding PostRegisterReading_def Let_def
    by (cases "ConvertTo (units env) q KILOWATT_HOUR") (simp_all add: register_events_def)
  have first_ok: "raised ?r = None \<and> register (meter ?r) = nr \<and> last_read_time (meter ?r) = Some ?T"
    if "last_read_time m = None" "ConvertTo (units env) q KILOWATT_HOUR = Inr nr" for nr
    using that dur
    by (simp add: PostRegisterReading_def Let_def register_events_def advance_meter)
  have second: "(\<exists>ev. posted ?r = [ev] \<and>
           is_dur ev (GetEntityPath (variable m)) l ?T
             \<lparr>value = value (register (meter ?r)) - value (register m), unit = KILOWATT_HOUR\<rparr>
             (time_uncertainty m) (time_uncertainty m)
             \<lparr>value = value ?u * 2, unit = unit ?u\<rparr>) \<and>
        ConvertTo (units env) q KILOWATT_HOUR = Inr (register (meter ?r)) \<and>
        last_read_time (meter ?r) = Some ?T"
    if l: "last_read_time m = Some l" and k: "unit (register m) = KILOWATT_HOUR"
      and ok: "raised ?r = None" for l
  proof -
    from PostRegisterReading_Inr [OF ok] obtain nr where
      c: "ConvertTo (units env) q KILOWATT_HOUR = Inr nr"
      and ev: "raised (register_events env m nr ?u ?T) = None"
      and p: "posted ?r = posted (register_events env m nr ?u ?T)"
      and nr: "register (meter ?r) = nr" and lt: "last_read_time (meter ?r) = Some ?T"
      by blast
    let ?delta = "\<lparr>value = value nr - value (register m), unit = KILOWATT_HOUR\<rparr>"
    let ?u2 = "\<lparr>value = value ?u * 2, unit = unit ?u\<rparr>"
    have ev': "register_events env m nr ?u ?T = PostDur env m (Some l) ?T ?delta ?u2"
      using dur l register_delta [OF k c] by (simp add: register_events_def)
    from ev have "raised (PostDur env m (Some l) ?T ?delta ?u2) = None" by (simp only: ev')
    from PostDur_returns [OF this] c lt show ?thesis unfolding p nr ev' by simp
  qed
  from first first_ok second show ?thesis by blast
qed

lemma fresh_dur_read:
  "durational (fresh_dur_meter\<lparr>register := \<lparr>value = 5, unit = KILOWATT_HOUR\<rparr>,
                                last_read_time := Some 100\<rparr>)"
  by (simp add: fresh_dur_meter_simps)

theorem durational_register_reading_witness:
  "posted (PostRegisterReading (batch_env std_units 0) fresh_dur_meter
             \<lparr>value = 5, unit = KILOWATT_HOUR\<rparr> None (Some 100)) = [] \<and>
   register (meter (PostRegisterReading (batch_env std_units 0) fresh_dur_meter
             \<lparr>value = 5, unit = KILOWATT_HOUR\<rparr> None (Some 100))) =
     \<lparr>value = 5, unit = KILOWATT_HOUR\<rparr> \<and>
   last_read_time (meter (PostRegisterReading (batch_env std_units 0) fresh_dur_meter
             \<lparr>value = 5, unit = KILOWATT_HOUR\<rparr> None (Some 100))) = Some 100 \<and>
   (\<exists>ev. posted (PostRegisterReading (batch_env std_units 0)
                   (fresh_dur_meter\<lparr>register := \<lparr>value = 5, unit = KILOWATT_HOUR\<rparr>,
                                     last_read_time := Some 100\<rparr>)
                   \<lparr>value = 28800000, unit = JOULE\<rparr> None (Some 160)) = [ev] \<and>
      is_dur ev ''/user/1/variable/v'' 100 160 \<lparr>value = 3, unit = KILOWATT_HOUR\<rparr> 1 1
        \<lparr>value = 0.002, unit = KILOWATT_HOUR\<rparr>)"
proof -
  let ?env = "batch_env std_units 0"
  let ?q1 = "\<lparr>value = 5, unit = KILOWATT_HOUR\<rparr>"
  let ?q2 = "\<lparr>value = 28800000, unit = JOULE\<rparr>"
  let ?m2 = "fresh_dur_meter\<lparr>register := \<lparr>value = 5, unit = KILOWATT_HOUR\<rparr>,
                             last_read_time := Some 100\<rparr>"
  let ?r1 = "PostRegisterReading ?env fresh_dur_meter ?q1 None (Some 100)"
  let ?r2 = "PostRegisterReading ?env ?m2 ?q2 None (Some 160)"
  have c1: "ConvertTo (units ?env) ?q1 KILOWATT_HOUR = Inr \<lparr>value = 5, unit = KILOWATT_HOUR\<rparr>"
    by (simp add: quantity_eval)
  have c2: "ConvertTo std_units ?q2 KILOWATT_HOUR = Inr \<lparr>value = 8, unit = KILOWATT_HOUR\<rparr>"
    by (simp add: quantity_eval)
  have s2: "durational ?m2 \<longrightarrow> last_read_time ?m2 = None \<or>
      (\<exists>d. Quantity_sub std_units \<lparr>value = 8, unit = KILOWATT_HOUR\<rparr> (register ?m2) = Inr d)"
    by (simp add: quantity_eval)
  note r2 = batch_PostRegisterReading_returns
    [where n = 0 and u = "None :: Quantity option" and t = "Some 160", OF c2 s2]
  from durational_register_reading [OF fresh_dur_meter_simps(5), of ?env ?q1 None "Some 100"]
    fresh_dur_meter_simps(7) c1
  have a: "posted ?r1 = [] \<and> register (meter ?r1) = \<lparr>value = 5, unit = KILOWATT_HOUR\<rparr> \<and>
           last_read_time (meter ?r1) = Some 100"
    by simp
  have h2: "last_read_time ?m2 = Some 100 \<and> unit (register ?m2) = KILOWATT_HOUR \<and>
            raised ?r2 = None"
    using r2(1) by simp
  with durational_register_reading [OF fresh_dur_read, of ?env ?q2 None "Some 160"]
  obtain ev where "posted ?r2 = [ev]"
    "is_dur ev (GetEntityPath (variable ?m2)) 100
             (case Some 160 of None \<Rightarrow> time_time ?env | Some x \<Rightarrow> x)
             \<lparr>value = value (register (meter ?r2)) - value (register ?m2),
              unit = KILOWATT_HOUR\<rparr>
             (time_uncertainty ?m2) (time_uncertainty ?m2)
             \<lparr>value = value (case None of None \<Rightarrow> uncertainty ?m2 | Some x \<Rightarrow> x) * 2,
              unit = unit (case None of None \<Rightarrow> uncertainty ?m2 | Some x \<Rightarrow> x)\<rparr>"
    by blast
  then have b: "\<exists>ev. posted ?r2 = [ev] \<and>
      is_dur ev ''/user/1/variable/v'' 100 160 \<lparr>value = 3, unit = KILOWATT_HOUR\<rparr> 1 1
        \<lparr>value = 0.002, unit = KILOWATT_HOUR\<rparr>"
    by (simp add: r2(2) fresh_dur_meter_simps GetEntityPath_def)
  from a b show ?thesis by blast
qed

section \<open>Interval readings that start at the epoch\<close>

lemma new_register_value_zero:
  "new_register_value U reg q (Some 0) e = Inr (q, reg)"
  "new_register_value U reg q None e = Inr (q, reg)"
  by (simp_all add: new_register_value_def)

text \<open>
  C10: a call of \<open>PostIntervalReading\<close> with the explicit start time 0 leaves the
  register as it was, whether it returns or raises: the computation of the new register
  takes 0 for an absent start. The events do not. On an instantaneous meter a call that
  returns has posted the measurement at the end, not marked initial, with the unchanged
  register, preceded by a measurement at time 0 marked initial, unless 0 is the time of
  the last reading (the boundary that is not posted twice); whereas with the start
  absent, a meter without a prior reading posts a single measurement, at the end, marked
  initial.
\<close>

theorem interval_reading_from_epoch:
  "register (meter (PostIntervalReading env m q u (Some 0) e)) = register m \<and>
   new_register_value (units env) (register m) q (Some 0)
       (case e of None \<Rightarrow> time_time env | Some x \<Rightarrow> x) =
     new_register_value (units env) (register m) q None
       (case e of None \<Rightarrow> time_time env | Some x \<Rightarrow> x) \<and>
   (\<not> durational m \<and> raised (PostIntervalReading env m q u (Some 0) e) = None \<longrightarrow>
      (\<exists>e2. is_inst e2 (GetEntityPath (variable m))
               (case e of None \<Rightarrow> time_time env | Some x \<Rightarrow> x) (register m)
               (time_uncertainty m) (case u of None \<Rightarrow> uncertainty m | Some x \<Rightarrow> x) False \<and>
         (if last_read_time m = Some 0
          then posted (PostIntervalReading env m q u (Some 0) e) = [e2]
          else \<exists>e1. posted (PostIntervalReading env m q u (Some 0) e) = [e1, e2] \<and>
                 is_inst e1 (GetEntityPath (variable m)) 0 (register m) (time_uncertainty m)
                   (case u of None \<Rightarrow> uncertainty m | Some x \<Rightarrow> x) True))) \<and>
   (\<not> durational m \<and> last_read_time m = None \<and>
    raised (PostIntervalReading env m q u None e) = None \<longrightarrow>
      (\<exists>e1. posted (PostIntervalReading env m q u None e) = [e1] \<and>
         is_inst e1 (GetEntityPath (variable m))
           (case e of None \<Rightarrow> time_time env | Some x \<Rightarrow> x) (register m)
           (time_uncertainty m) (case u of None \<Rightarrow> uncertainty m | Some x \<Rightarrow> x) True))"
proof -
  let ?E = "case e of None \<Rightarrow> time_time env | Some x \<Rightarrow> x"
  let ?u = "case u of None \<Rightarrow> uncertainty m | Some x \<Rightarrow> x"
  let ?r = "PostIntervalReading env m q u (Some 0) e"
  let ?ra = "PostIntervalReading env m q u None e"
  have reg: "register (meter ?r) = register m"
  proof (cases "raised ?r")
    case None
    from PostIntervalReading_Inr [OF None] show ?thesis
      by (simp add: new_register_value_zero)
  next
    case (Some x)
    then show ?thesis using failed_PostIntervalReading [of env m q u "Some 0" e] by simp
  qed
  have same: "new_register_value (units env) (register m) q (Some 0) ?E =
              new_register_value (units env) (register m) q None ?E"
    by (simp add: new_register_value_zero)
  have ev: "\<exists>e2. is_inst e2 (GetEntityPath (variable m)) ?E (register m)
               (time_uncertainty m) ?u False \<and>
         (if last_read_time m = Some 0 then posted ?r = [e2]
          else \<exists>e1. posted ?r = [e1, e2] \<and>
                 is_inst e1 (GetEntityPath (variable m)) 0 (register m) (time_uncertainty m)
                   ?u True)"
    if inst: "\<not> durational m" and ok: "raised ?r = None"
  proof (cases "last_read_time m")
    case None
    with interval_events_cases [OF inst ok] reg show ?thesis by auto
  next
    case (Some l)
    show ?thesis
    proof (cases "l = 0")
      case True
      with Some interval_events_cases [OF inst ok] reg show ?thesis by auto
    next
      case False
      with Some interval_events_cases [OF inst ok] reg show ?thesis by auto
    qed
  qed
  have absent: "\<exists>e1. posted ?ra = [e1] \<and>
         is_inst e1 (GetEntityPath (variable m)) ?E (register m) (time_uncertainty m) ?u True"
    if inst: "\<not> durational m" and l: "last_read_time m = None" and ok: "raised ?ra = None"
  proof -
    from PostIntervalReading_Inr [OF ok] l obtain q' nr where
      ev: "raised (interval_events env m q' nr ?u None ?E) = None"
      and p: "posted ?ra = posted (interval_events env m q' nr ?u None ?E)"
      by auto
    from ev inst l have "raised (PostInst env m (Some ?E) (register m) ?u True) = None"
      by (simp add: interval_events_def)
    from PostInst_returns [OF this] inst l show ?thesis
      unfolding p by (simp add: interval_events_def)
  qed
  from reg same ev absent show ?thesis by blast
qed

theorem interval_reading_from_epoch_witness:
  "register (meter (PostIntervalReading (batch_env std_units 0) fresh_inst_meter
                     \<lparr>value = 2000, unit = WATT\<rparr> None (Some 0) (Some 3600))) =
     \<lparr>value = 0, unit = KILOWATT_HOUR\<rparr> \<and>
   (\<exists>e1 e2.
      posted (PostIntervalReading (batch_env std_units 0) fresh_inst_meter
                \<lparr>value = 2000, unit = WATT\<rparr> None (Some 0) (Some 3600)) = [e1, e2] \<and>
      is_inst e1 ''/user/1/variable/v'' 0 \<lparr>value = 0, unit = KILOWATT_HOUR\<rparr> 1
        \<lparr>value = 0.001, unit = KILOWATT_HOUR\<rparr> True \<and>
      is_inst e2 ''/user/1/variable/v'' 3600 \<lparr>value = 0, unit = KILOWATT_HOUR\<rparr> 1
        \<lparr>value = 0.001, unit = KILOWATT_HOUR\<rparr> False) \<and>
   (\<exists>e1.
      posted (PostIntervalReading (batch_env std_units 0) fresh_inst_meter
                \<lparr>value = 2000, unit = WATT\<rparr> None None (Some 3600)) = [e1] \<and>
      is_inst e1 ''/user/1/variable/v'' 3600 \<lparr>value = 0, unit = KILOWATT_HOUR\<rparr> 1
        \<lparr>value = 0.001, unit = KILOWATT_HOUR\<rparr> True)"
proof -
  let ?env = "batch_env std_units 0"
  let ?q = "\<lparr>value = 2000, unit = WATT\<rparr>"
  let ?r = "PostIntervalReading ?env fresh_inst_meter ?q None (Some 0) (Some 3600)"
  let ?ra = "PostIntervalReading ?env fresh_inst_meter ?q None None (Some 3600)"
  have n: "new_register_value std_units (register fresh_inst_meter) ?q
              (case Some 0 of None \<Rightarrow> last_read_time fresh_inst_meter | Some x \<Rightarrow> Some x)
              (case Some 3600 of None \<Rightarrow> 0 | Some x \<Rightarrow> x) =
            Inr (?q, register fresh_inst_meter)"
    by (simp add: new_register_value_zero)
  have n0: "new_register_value std_units (register fresh_inst_meter) ?q
              (case None of None \<Rightarrow> last_read_time fresh_inst_meter | Some x \<Rightarrow> Some x)
              (case Some 3600 of None \<Rightarrow> 0 | Some x \<Rightarrow> x) =
            Inr (?q, register fresh_inst_meter)"
    by (simp add: new_register_value_zero fresh_inst_meter_simps)
  note r = batch_PostIntervalReading_returns
    [where u = "None :: Quantity option", OF fresh_inst_meter_simps(5) n]
  note r0 = batch_PostIntervalReading_returns
    [where u = "None :: Quantity option", OF fresh_inst_meter_simps(5) n0]
  note at_input = interval_reading_from_epoch [of ?env fresh_inst_meter ?q None "Some 3600"]
  from at_input have a: "register (meter ?r) = \<lparr>value = 0, unit = KILOWATT_HOUR\<rparr>"
    by (simp add: fresh_inst_meter_simps)
  from at_input fresh_inst_meter_simps(5) r(1)
  have "\<exists>e2. is_inst e2 (GetEntityPath (variable fresh_inst_meter))
               (case Some 3600 of None \<Rightarrow> time_time ?env | Some x \<Rightarrow> x)
               (register fresh_inst_meter) (time_uncertainty fresh_inst_meter)
               (case None of None \<Rightarrow> uncertainty fresh_inst_meter | Some x \<Rightarrow> x) False \<and>
         (if last_read_time fresh_inst_meter = Some 0 then posted ?r = [e2]
          else \<exists>e1. posted ?r = [e1, e2] \<and>
                 is_inst e1 (GetEntityPath (variable fresh_inst_meter)) 0
                   (register fresh_inst_meter) (time_uncertainty fresh_inst_meter)
                   (case None of None \<Rightarrow> uncertainty fresh_inst_meter | Some x \<Rightarrow> x) True)"
    by blast
  then have b: "\<exists>e1 e2. posted ?r = [e1, e2] \<and>
      is_inst e1 ''/user/1/variable/v'' 0 \<lparr>value = 0, unit = KILOWATT_HOUR\<rparr> 1
        \<lparr>value = 0.001, unit = KILOWATT_HOUR\<rparr> True \<and>
      is_inst e2 ''/user/1/variable/v'' 3600 \<lparr>value = 0, unit = KILOWATT_HOUR\<rparr> 1
        \<lparr>value = 0.001, unit = KILOWATT_HOUR\<rparr> False"
    by (auto simp: fresh_inst_meter_simps GetEntityPath_def)
  from at_input fresh_inst_meter_simps(5) fresh_inst_meter_simps(7) r0(1)
  have "\<exists>e1. posted ?ra = [e1] \<and>
         is_inst e1 (GetEntityPath (variable fresh_inst_meter))
           (case Some 3600 of None \<Rightarrow> time_time ?env | Some x \<Rightarrow> x)
           (register fresh_inst_meter) (time_uncertainty fresh_inst_meter)
           (case None of None \<Rightarrow> uncertainty fresh_inst_meter | Some x \<Rightarrow> x) True"
    by blast
  then have c: "\<exists>e1. posted ?ra = [e1] \<and>
      is_inst e1 ''/user/1/variable/v'' 3600 \<lparr>value = 0, unit = KILOWATT_HOUR\<rparr> 1
        \<lparr>value = 0.001, unit = KILOWATT_HOUR\<rparr> True"
    by (simp add: fresh_inst_meter_simps GetEntityPath_def)
  from a b c show ?thesis by blast
qed

section \<open>Interval readings of power\<close>

lemma power_interval_reading:
  assumes "loaded U" and "unit q = WATT" and "S \<noteq> 0" and "unit reg = KILOWATT_HOUR"
  shows "new_register_value U reg q (Some S) E =
           Inr (\<lparr>value = value q * (E - S), unit = JOULE\<rparr>,
                \<lparr>value = value reg + value q * (E - S) / 3600000, unit = KILOWATT_HOUR\<rparr>)"
  using assms
  by (simp add: loaded_def new_register_value_def Quantity_IsConvertibleTo_def
        Unit_IsConvertibleTo_def Quantity_mul_def Unit_rmul_def Quantity_add_def
        ConvertTo_def bind_def)

lemma energy_interval_reading:
  assumes "loaded U" and "unit q = KILOWATT_HOUR" and "S \<noteq> 0" and "unit reg = KILOWATT_HOUR"
  shows "new_register_value U reg q (Some S) E =
           Inr (q, \<lparr>value = value reg + value q, unit = KILOWATT_HOUR\<rparr>)"
  using assms
  by (simp add: loaded_def new_register_value_def Quantity_IsConvertibleTo_def
        Unit_IsConvertibleTo_def Quantity_add_def ConvertTo_def bind_def unit_refs_distinct)

text \<open>
  C1: for a quantity in watts, a start other than 0 and a register in kilowatt-hours the
  register advances by the quantity times the seconds elapsed (\<open>power_interval_reading\<close>),
  as much as an energy reading of the same amount advances it (\<open>energy_interval_reading\<close>).
  The claim as stated fails on the code in two ways. On a meter whose last reading was at
  time 0, two kilowatts from 0 to 3600 leave the register at zero, where two
  kilowatt-hours were due (and two kilowatt-hours over another interval do add two
  kilowatt-hours). And two kilowatts in a unit \<^verbatim>\<open>Unit('kW', 1000, WATT)\<close>, which is
  convertible to the watt, raise \<open>AttributeError\<close>: the product with the seconds is
  \<^verbatim>\<open>None\<close>.
\<close>

theorem power_reading_not_advanced:
  "raised (PostIntervalReading (batch_env std_units 0)
             (fresh_inst_meter\<lparr>last_read_time := Some 0\<rparr>)
             \<lparr>value = 2000, unit = WATT\<rparr> None (Some 0) (Some 3600)) = None \<and>
   register (meter (PostIntervalReading (batch_env std_units 0)
                      (fresh_inst_meter\<lparr>last_read_time := Some 0\<rparr>)
                      \<lparr>value = 2000, unit = WATT\<rparr> None (Some 0) (Some 3600))) =
     \<lparr>value = 0, unit = KILOWATT_HOUR\<rparr> \<and>
   register (meter (PostIntervalReading (batch_env std_units 0)
                      (fresh_inst_meter\<lparr>last_read_time := Some 0\<rparr>)
                      \<lparr>value = 2, unit = KILOWATT_HOUR\<rparr> None (Some 7200) (Some 7201))) =
     \<lparr>value = 2, unit = KILOWATT_HOUR\<rparr> \<and>
   raised (PostIntervalReading (batch_env kilowatt_units 0)
             (fresh_inst_meter\<lparr>last_read_time := Some 3600\<rparr>)
             \<lparr>value = 2, unit = 4\<rparr> None (Some 3600) (Some 7200)) = Some AttributeError \<and>
   register (meter (PostIntervalReading (batch_env kilowatt_units 0)
                      (fresh_inst_meter\<lparr>last_read_time := Some 3600\<rparr>)
                      \<lparr>value = 2, unit = 4\<rparr> None (Some 3600) (Some 7200))) =
     \<lparr>value = 0, unit = KILOWATT_HOUR\<rparr>"
proof -
  let ?m = "fresh_inst_meter\<lparr>last_read_time := Some 0\<rparr>"
  have i: "\<not> durational ?m" by (simp add: fresh_inst_meter_simps)
  have n1: "new_register_value std_units (register ?m) \<lparr>value = 2000, unit = WATT\<rparr>
              (case Some 0 of None \<Rightarrow> last_read_time ?m | Some x \<Rightarrow> Some x)
              (case Some 3600 of None \<Rightarrow> 0 | Some x \<Rightarrow> x) =
            Inr (\<lparr>value = 2000, unit = WATT\<rparr>, \<lparr>value = 0, unit = KILOWATT_HOUR\<rparr>)"
    by (simp add: new_register_value_zero fresh_inst_meter_simps)
  have n2: "new_register_value std_units (register ?m) \<lparr>value = 2, unit = KILOWATT_HOUR\<rparr>
              (case Some 7200 of None \<Rightarrow> last_read_time ?m | Some x \<Rightarrow> Some x)
              (case Some 7201 of None \<Rightarrow> 0 | Some x \<Rightarrow> x) =
            Inr (\<lparr>value = 2, unit = KILOWATT_HOUR\<rparr>, \<lparr>value = 2, unit = KILOWATT_HOUR\<rparr>)"
    by (simp add: quantity_eval fresh_inst_meter_simps)
  have n3: "new_register_value kilowatt_units
              (register (fresh_inst_meter\<lparr>last_read_time := Some 3600\<rparr>))
              \<lparr>value = 2, unit = 4\<rparr> (Some 3600) 7200 = Inl AttributeError"
    by (simp add: new_register_value_def Quantity_IsConvertibleTo_def Unit_IsConvertibleTo_def
          Quantity_mul_def Unit_rmul_def kilowatt_units_lookup std_units_lookup)
  note r1 = batch_PostIntervalReading_returns [where u = "None :: Quantity option", OF i n1]
  note r2 = batch_PostIntervalReading_returns [where u = "None :: Quantity option", OF i n2]
  have r3: "PostIntervalReading (batch_env kilowatt_units 0)
             (fresh_inst_meter\<lparr>last_read_time := Some 3600\<rparr>)
             \<lparr>value = 2, unit = 4\<rparr> None (Some 3600) (Some 7200) =
            raise (fresh_inst_meter\<lparr>last_read_time := Some 3600\<rparr>) AttributeError"
    using n3 by (simp add: PostIntervalReading_def)
  from r1 r2 show ?thesis unfolding r3 by (simp add: fresh_inst_meter_simps)
qed

section \<open>Timestamps\<close>



lemma digit_value_zero [simp]: "digit_value CHR ''0'' = 0"
  by (simp add: digit_value_def)










lemma FromTimestamp_trailing_text:
  "\<not> rfc3339_format ''1970-01-01T00:01:00Zulu'' \<and>
   FromTimestamp calendar_timegm ''1970-01-01T00:01:00Zulu'' = Inr 60"
  by code_simp



end
